theory Spec2Isabelle
  imports Main "HOL-Library.AList"
begin

section \<open>Python values, dictionaries and return values\<close>

text \<open>
  A JSON value as \<^verbatim>\<open>json.load\<close> returns it. It is used where the code reads a
  document without fixing its shape and for the free-form attributes of a user.
\<close>

datatype json =
    JNull
  | JBool bool
  | JNum int
  | JStr string
  | JArr "json list"
  | JObj "(string \<times> json) list"

text \<open>
  A Python \<^verbatim>\<open>dict\<close> keeps its keys in insertion order, and so does the JSON file it is
  dumped to: it is an association list. \<^verbatim>\<open>k in d\<close> is \<open>has_key\<close>, \<^verbatim>\<open>d[k] = v\<close> is
  \<^const>\<open>AList.update\<close> (in place for a known key, at the end for a new one),
  \<^verbatim>\<open>del d[k]\<close> is \<^const>\<open>AList.delete\<close>, \<^verbatim>\<open>d.get(k)\<close> is \<^const>\<open>map_of\<close>.
\<close>

type_synonym ('k, 'v) dict = "('k \<times> 'v) list"

definition has_key :: "('k, 'v) dict \<Rightarrow> 'k \<Rightarrow> bool" where
  "has_key d k = (map_of d k \<noteq> None)"

definition get_or :: "('k, 'v) dict \<Rightarrow> 'k \<Rightarrow> 'v \<Rightarrow> 'v" where
  "get_or d k dflt = (case map_of d k of None \<Rightarrow> dflt | Some v \<Rightarrow> v)"

text \<open>
  What a repository function returns: the tuple \<^verbatim>\<open>(success, message)\<close>, the tuple
  \<^verbatim>\<open>(success, message, generated_id)\<close>, a bare string or a bare boolean.
\<close>

datatype result =
    Tuple2 bool string
  | Tuple3 bool string string
  | PyStr string
  | PyBool bool

datatype py_error = AttributeError

text \<open>
  \<^verbatim>\<open>datetime.now()\<close> is an input of the model, in the three renderings the code uses:
  \<^verbatim>\<open>isoformat()\<close>, \<^verbatim>\<open>strftime('%Y%m%d%H%M%S')\<close> and \<^verbatim>\<open>strftime("%Y-%m-%d %H:%M:%S")\<close>.
\<close>

record clock =
  isoformat :: string
  stamp :: string
  spaced :: string

text \<open>Decimal rendering of a count, as an f-string prints it.\<close>

definition digit :: "nat \<Rightarrow> char" where
  "digit n = ''0123456789'' ! n"

function str_nat :: "nat \<Rightarrow> string" where
  "str_nat n =
     (if n < 10 then [digit n] else str_nat (n div 10) @ [digit (n mod 10)])"
  by pat_completeness auto
termination
  by (relation "measure id") auto

declare str_nat.simps [simp del]

section \<open>Entities\<close>

text \<open>
  Each entity is the dictionary the code writes for it. A key the code reads with
  \<^verbatim>\<open>x["key"]\<close> is a field; a key that may be \<^verbatim>\<open>null\<close> or missing is an option.
\<close>

record user =
  u_password :: string
  u_role :: string
  u_created_at :: json
  u_attrs :: "(string, json) dict"

record course =
  c_course_name :: string
  c_department :: "string option"
  c_teacher_email :: "string option"
  c_description :: string
  c_credits :: int
  c_created_at :: string

record department =
  d_name :: string
  d_hod_email :: string
  d_description :: string
  d_created_at :: string

record mark =
  m_status :: string
  m_marked_at :: string

record assignment =
  a_assignment_id :: string
  a_title :: string
  a_description :: string
  a_due_date :: string
  a_max_points :: int
  a_created_at :: string

record project =
  p_project_id :: string
  p_title :: string
  p_description :: string
  p_due_date :: string
  p_max_points :: int
  p_group_project :: bool
  p_created_at :: string

text \<open>
  \<open>s_group_members\<close> is \<open>None\<close> where the entry has no such key (an assignment
  submission) and \<open>Some None\<close> where it is \<^verbatim>\<open>null\<close>; \<open>s_graded_at\<close> is \<open>None\<close>
  until the entry is graded.
\<close>

record submission =
  s_student_email :: string
  s_submission_text :: string
  s_file_path :: "string option"
  s_group_members :: "string list option option"
  s_submitted_at :: string
  s_grade :: "int option"
  s_feedback :: "string option"
  s_graded_at :: "string option"

record certificate =
  ct_certificate_id :: string
  ct_title :: string
  ct_issuing_organization :: string
  ct_issue_date :: string
  ct_file_path :: "string option"
  ct_submitted_at :: string
  ct_verified :: bool
  ct_verified_at :: "string option"

record announcement =
  an_announcement_id :: nat
  an_title :: string
  an_content :: string
  an_author_email :: string
  an_target_roles :: "string list option"
  an_target_departments :: "string list option"
  an_target_emails :: "string list option"
  an_created_at :: string

record exam =
  e_exam_id :: string
  e_exam_name :: string
  e_exam_type :: string
  e_semester :: int
  e_date :: string
  e_max_marks :: int
  e_created_at :: string

record subject =
  sb_subject_id :: string
  sb_subject_name :: string
  sb_semester :: int
  sb_department :: "string option"

record exam_result =
  r_marks :: int
  r_remarks :: "string option"
  r_updated_at :: string

section \<open>The document store\<close>

text \<open>
  One JSON document per entity type; \<open>None\<close> is a file that does not exist. Two
  fields are for the relative path \<^verbatim>\<open>"certificates.json"\<close>, which is resolved against
  the working directory: \<open>cwd_is_data_dir\<close> says whether that is the data directory
  itself (then the relative path names the store's certificates file), and
  \<open>cwd_certificates_file\<close> is the file of that name in the working directory otherwise.
  \<open>session_user\<close> is \<^verbatim>\<open>st.session_state.user\<close>, the logged-in user (with the key
  \<^verbatim>\<open>"email"\<close> among its attributes), which is not persisted.
\<close>

record world =
  users_file :: "(string, user) dict option"
  courses_file :: "(string, course) dict option"
  attendance_file :: "(string, (string, (string, mark) dict) dict) dict option"
  assignments_file :: "(string, assignment list) dict option"
  submissions_file :: "(string, submission list) dict option"
  projects_file :: "(string, project list) dict option"
  certificates_file :: "(string, certificate list) dict option"
  announcements_file :: "announcement list option"
  exams_file :: "(string, exam) dict option"
  subjects_file :: "(string, subject) dict option"
  exam_results_file :: "(string, (string, (string, exam_result) dict) dict) dict option"
  departments_file :: "(string, department) dict option"
  cwd_is_data_dir :: bool
  cwd_certificates_file :: "json option"
  session_user :: "user option"

text \<open>
  \<^verbatim>\<open>load_data\<close>: a missing file is first created with the empty document of its type
  (\<open>dflt\<close>: the empty list for announcements, the empty dictionary otherwise), then
  the file is read. The result is the document and the file as it is afterwards.
\<close>

definition load_data :: "'a \<Rightarrow> 'a option \<Rightarrow> 'a \<times> 'a option" where
  "load_data dflt file =
     (case file of None \<Rightarrow> (dflt, Some dflt) | Some doc \<Rightarrow> (doc, Some doc))"

definition save_data :: "'a \<Rightarrow> 'a option" where
  "save_data doc = Some doc"

section \<open>Submissions\<close>

definition get_submissions :: "world \<Rightarrow> (string, submission list) dict \<times> world" where
  "get_submissions st =
     (let (doc, file) = load_data [] (submissions_file st)
      in (doc, st\<lparr>submissions_file := file\<rparr>))"

text \<open>The loop over the stored entries that looks for the student's email.\<close>

definition already_submitted :: "submission list \<Rightarrow> string \<Rightarrow> bool" where
  "already_submitted entries student_email =
     list_ex (\<lambda>s. s_student_email s = student_email) entries"

definition submit_assignment ::
  "clock \<Rightarrow> string \<Rightarrow> string \<Rightarrow> string \<Rightarrow> string option \<Rightarrow> world \<Rightarrow> result \<times> world" where
  "submit_assignment now assignment_id student_email submission_text file_path st =
     (let (submissions, st1) = get_submissions st;
          submissions1 = (if \<not> has_key submissions assignment_id
                          then AList.update assignment_id [] submissions else submissions);
          entries = get_or submissions1 assignment_id []
      in if already_submitted entries student_email
         then (Tuple2 False ''You have already submitted this assignment'', st1)
         else
           let entry = \<lparr>s_student_email = student_email,
                        s_submission_text = submission_text,
                        s_file_path = file_path,
                        s_group_members = None,
                        s_submitted_at = isoformat now,
                        s_grade = None,
                        s_feedback = None,
                        s_graded_at = None\<rparr>;
               submissions2 = AList.update assignment_id (entries @ [entry]) submissions1
           in (Tuple2 True ''Assignment submitted successfully'',
               st1\<lparr>submissions_file := save_data submissions2\<rparr>))"

definition submit_project ::
  "clock \<Rightarrow> string \<Rightarrow> string \<Rightarrow> string \<Rightarrow> string option \<Rightarrow> string list option \<Rightarrow> world
     \<Rightarrow> result \<times> world" where
  "submit_project now project_id student_email submission_text file_path group_members st =
     (let (submissions, st1) = get_submissions st;
          submissions1 = (if \<not> has_key submissions project_id
                          then AList.update project_id [] submissions else submissions);
          entries = get_or submissions1 project_id []
      in if already_submitted entries student_email
         then (Tuple2 False ''You have already submitted this project'', st1)
         else
           let entry = \<lparr>s_student_email = student_email,
                        s_submission_text = submission_text,
                        s_file_path = file_path,
                        s_group_members = Some group_members,
                        s_submitted_at = isoformat now,
                        s_grade = None,
                        s_feedback = None,
                        s_graded_at = None\<rparr>;
               submissions2 = AList.update project_id (entries @ [entry]) submissions1
           in (Tuple2 True ''Project submitted successfully'',
               st1\<lparr>submissions_file := save_data submissions2\<rparr>))"

text \<open>
  The loops of the form \<^verbatim>\<open>for i, x in enumerate(xs): if test(x): ...; save; return\<close>
  change or delete the first entry that passes the test; \<open>None\<close> when the loop ends
  without finding one.
\<close>

fun update_first :: "('a \<Rightarrow> bool) \<Rightarrow> ('a \<Rightarrow> 'a) \<Rightarrow> 'a list \<Rightarrow> 'a list option" where
  "update_first test change [] = None"
| "update_first test change (x # xs) =
     (if test x then Some (change x # xs)
      else map_option ((#) x) (update_first test change xs))"

fun delete_first :: "('a \<Rightarrow> bool) \<Rightarrow> 'a list \<Rightarrow> 'a list option" where
  "delete_first test [] = None"
| "delete_first test (x # xs) =
     (if test x then Some xs else map_option ((#) x) (delete_first test xs))"

definition grade_submission ::
  "clock \<Rightarrow> string \<Rightarrow> string \<Rightarrow> int \<Rightarrow> string option \<Rightarrow> world \<Rightarrow> result \<times> world" where
  "grade_submission now assignment_id student_email grade feedback st =
     (let (submissions, st1) = get_submissions st
      in case map_of submissions assignment_id of
           None \<Rightarrow> (Tuple2 False ''Assignment not found'', st1)
         | Some entries \<Rightarrow>
             (case update_first (\<lambda>s. s_student_email s = student_email)
                     (\<lambda>s. s\<lparr>s_grade := Some grade, s_feedback := feedback,
                             s_graded_at := Some (isoformat now)\<rparr>) entries of
                Some entries1 \<Rightarrow>
                  (Tuple2 True ''Submission graded successfully'',
                   st1\<lparr>submissions_file :=
                          save_data (AList.update assignment_id entries1 submissions)\<rparr>)
              | None \<Rightarrow> (Tuple2 False ''Submission not found'', st1)))"

definition get_assignment_submissions :: "string \<Rightarrow> world \<Rightarrow> submission list \<times> world" where
  "get_assignment_submissions assignment_id st =
     (let (submissions, st1) = get_submissions st
      in (get_or submissions assignment_id [], st1))"

section \<open>Users and authentication\<close>

text \<open>
  \<^verbatim>\<open>hash_password\<close> is SHA-256 of the standard library, rendered in hexadecimal; it
  is a parameter \<open>H\<close> of every function that hashes.
\<close>

definition default_users :: "(string \<Rightarrow> string) \<Rightarrow> clock \<Rightarrow> (string, user) dict" where
  "default_users H now =
     [(''admin@college.edu'',
       \<lparr>u_password = H ''admin123'', u_role = ''admin'', u_created_at = JStr (isoformat now),
        u_attrs = [(''name'', JStr ''Admin User'')]\<rparr>),
      (''teacher@college.edu'',
       \<lparr>u_password = H ''teacher123'', u_role = ''teacher'', u_created_at = JStr (isoformat now),
        u_attrs = [(''name'', JStr ''Demo Teacher''),
                   (''department'', JStr ''Computer Science'')]\<rparr>),
      (''student@college.edu'',
       \<lparr>u_password = H ''student123'', u_role = ''student'', u_created_at = JStr (isoformat now),
        u_attrs = [(''name'', JStr ''Demo Student''), (''student_id'', JStr ''S12345''),
                   (''department'', JStr ''Computer Science''), (''year'', JNum 2)]\<rparr>)]"

text \<open>
  \<^verbatim>\<open>get_users\<close> writes the default accounts when the file is missing, then reads it.
  The code reads the clock once for each default record; the model takes the three
  readings to be the same instant.
\<close>

definition get_users :: "(string \<Rightarrow> string) \<Rightarrow> clock \<Rightarrow> world \<Rightarrow> (string, user) dict \<times> world" where
  "get_users H now st =
     (let (doc, file) = load_data (default_users H now) (users_file st)
      in (doc, st\<lparr>users_file := file\<rparr>))"

definition save_users :: "(string, user) dict \<Rightarrow> world \<Rightarrow> world" where
  "save_users users st = st\<lparr>users_file := save_data users\<rparr>"

definition authenticate ::
  "(string \<Rightarrow> string) \<Rightarrow> clock \<Rightarrow> string \<Rightarrow> string \<Rightarrow> world \<Rightarrow> user option \<times> world" where
  "authenticate H now email password st =
     (let (users, st1) = get_users H now st
      in case map_of users email of
           None \<Rightarrow> (None, st1)
         | Some u \<Rightarrow> if u_password u = H password then (Some u, st1) else (None, st1))"

text \<open>
  \<^verbatim>\<open>create_user(email, password, role, **kwargs)\<close>: the record is the dictionary
  \<^verbatim>\<open>{"password": ..., "role": ..., "created_at": ..., **kwargs}\<close>. The keyword arguments
  cannot name \<^verbatim>\<open>password\<close> or \<^verbatim>\<open>role\<close>, which are parameters; a \<^verbatim>\<open>created_at\<close>
  among them replaces the time stamp, and the others are the free-form attributes of
  the record (name, department, student_id, year).
\<close>

definition create_user ::
  "(string \<Rightarrow> string) \<Rightarrow> clock \<Rightarrow> string \<Rightarrow> string \<Rightarrow> string \<Rightarrow> (string, json) dict \<Rightarrow> world
     \<Rightarrow> result \<times> world" where
  "create_user H now email password role kwargs st =
     (let (users, st1) = get_users H now st
      in if has_key users email then (Tuple2 False ''Email already exists'', st1)
         else
           let u = \<lparr>u_password = H password, u_role = role,
                    u_created_at = get_or kwargs ''created_at'' (JStr (isoformat now)),
                    u_attrs = AList.delete ''created_at'' kwargs\<rparr>
           in (Tuple2 True ''User created successfully'',
               save_users (AList.update email u users) st1))"

text \<open>
  The keyword arguments of \<^verbatim>\<open>update_user\<close>: the keys \<^verbatim>\<open>password\<close> and \<^verbatim>\<open>role\<close>
  when they are given, and the dictionary of the other keys. \<^verbatim>\<open>dict.update\<close> writes
  each of them over the stored record: a \<^verbatim>\<open>created_at\<close> among the other keys replaces
  the time stamp, the rest are free-form attributes.
\<close>

record user_kwargs =
  kw_password :: "string option"
  kw_role :: "string option"
  kw_attrs :: "(string, json) dict"

definition dict_update :: "('k, 'v) dict \<Rightarrow> ('k, 'v) dict \<Rightarrow> ('k, 'v) dict" where
  "dict_update d kwargs = fold (\<lambda>(k, v). AList.update k v) kwargs d"

definition update_user ::
  "(string \<Rightarrow> string) \<Rightarrow> clock \<Rightarrow> string \<Rightarrow> user_kwargs \<Rightarrow> world \<Rightarrow> result \<times> world" where
  "update_user H now email kwargs st =
     (let (users, st1) = get_users H now st
      in case map_of users email of
           None \<Rightarrow> (Tuple2 False ''User not found'', st1)
         | Some u \<Rightarrow>
             let password1 = (case kw_password kwargs of
                                Some p \<Rightarrow> if p \<noteq> [] then Some (H p) else None
                              | None \<Rightarrow> None);
                 u1 = u\<lparr>u_password := (case password1 of Some h \<Rightarrow> h | None \<Rightarrow> u_password u),
                        u_role := (case kw_role kwargs of Some r \<Rightarrow> r | None \<Rightarrow> u_role u),
                        u_created_at :=
                          get_or (kw_attrs kwargs) ''created_at'' (u_created_at u),
                        u_attrs := dict_update (u_attrs u)
                                     (AList.delete ''created_at'' (kw_attrs kwargs))\<rparr>;
                 st2 = save_users (AList.update email u1 users) st1;
                 st3 = (case session_user st2 of
                          Some su \<Rightarrow>
                            if map_of (u_attrs su) ''email'' = Some (JStr email)
                            then st2\<lparr>session_user := Some u1\<rparr> else st2
                        | None \<Rightarrow> st2)
             in (Tuple2 True ''User updated successfully'', st3))"

definition delete_user ::
  "(string \<Rightarrow> string) \<Rightarrow> clock \<Rightarrow> string \<Rightarrow> world \<Rightarrow> result \<times> world" where
  "delete_user H now email st =
     (let (users, st1) = get_users H now st
      in if \<not> has_key users email then (Tuple2 False ''User not found'', st1)
         else (Tuple2 True ''User deleted successfully'',
               save_users (AList.delete email users) st1))"

section \<open>Courses\<close>

definition get_courses :: "world \<Rightarrow> (string, course) dict \<times> world" where
  "get_courses st =
     (let (doc, file) = load_data [] (courses_file st)
      in (doc, st\<lparr>courses_file := file\<rparr>))"

definition add_course ::
  "clock \<Rightarrow> string \<Rightarrow> string \<Rightarrow> string \<Rightarrow> string \<Rightarrow> string \<Rightarrow> int \<Rightarrow> world \<Rightarrow> result \<times> world" where
  "add_course now course_id course_name department teacher_email description credits st =
     (let (courses, st1) = get_courses st
      in if has_key courses course_id then (Tuple2 False ''Course ID already exists'', st1)
         else
           let c = \<lparr>c_course_name = course_name, c_department = Some department,
                    c_teacher_email = Some teacher_email, c_description = description,
                    c_credits = credits, c_created_at = isoformat now\<rparr>
           in (Tuple2 True ''Course added successfully'',
               st1\<lparr>courses_file := save_data (AList.update course_id c courses)\<rparr>))"

text \<open>The keyword arguments of \<^verbatim>\<open>update_course\<close>: each key of a course, when given.\<close>

record course_kwargs =
  kw_course_name :: "string option"
  kw_department :: "string option"
  kw_teacher_email :: "string option"
  kw_description :: "string option"
  kw_credits :: "int option"

definition given :: "'a option \<Rightarrow> 'a \<Rightarrow> 'a" where
  "given kw old = (case kw of Some v \<Rightarrow> v | None \<Rightarrow> old)"

definition update_course :: "string \<Rightarrow> course_kwargs \<Rightarrow> world \<Rightarrow> result \<times> world" where
  "update_course course_id kwargs st =
     (let (courses, st1) = get_courses st
      in case map_of courses course_id of
           None \<Rightarrow> (Tuple2 False ''Course not found'', st1)
         | Some c \<Rightarrow>
             let c1 = c\<lparr>c_course_name := given (kw_course_name kwargs) (c_course_name c),
                        c_department :=
                          (case kw_department kwargs of Some d \<Rightarrow> Some d | None \<Rightarrow> c_department c),
                        c_teacher_email :=
                          (case kw_teacher_email kwargs of Some t \<Rightarrow> Some t
                           | None \<Rightarrow> c_teacher_email c),
                        c_description := given (kw_description kwargs) (c_description c),
                        c_credits := given (kw_credits kwargs) (c_credits c)\<rparr>
             in (Tuple2 True ''Course updated successfully'',
                 st1\<lparr>courses_file := save_data (AList.update course_id c1 courses)\<rparr>))"

definition delete_course :: "string \<Rightarrow> world \<Rightarrow> result \<times> world" where
  "delete_course course_id st =
     (let (courses, st1) = get_courses st
      in if \<not> has_key courses course_id then (Tuple2 False ''Course not found'', st1)
         else (Tuple2 True ''Course deleted successfully'',
               st1\<lparr>courses_file := save_data (AList.delete course_id courses)\<rparr>))"

section \<open>Attendance\<close>

definition get_attendance ::
  "world \<Rightarrow> (string, (string, (string, mark) dict) dict) dict \<times> world" where
  "get_attendance st =
     (let (doc, file) = load_data [] (attendance_file st)
      in (doc, st\<lparr>attendance_file := file\<rparr>))"

definition mark_attendance ::
  "clock \<Rightarrow> string \<Rightarrow> string \<Rightarrow> string \<Rightarrow> string \<Rightarrow> world \<Rightarrow> result \<times> world" where
  "mark_attendance now course_id date student_email status st =
     (let (attendance, st1) = get_attendance st;
          attendance1 = (if \<not> has_key attendance course_id
                         then AList.update course_id [] attendance else attendance);
          dates = get_or attendance1 course_id [];
          dates1 = (if \<not> has_key dates date then AList.update date [] dates else dates);
          students = get_or dates1 date [];
          students1 = AList.update student_email
                        \<lparr>m_status = status, m_marked_at = isoformat now\<rparr> students;
          attendance2 = AList.update course_id (AList.update date students1 dates1) attendance1
      in (Tuple2 True ''Attendance marked successfully'',
          st1\<lparr>attendance_file := save_data attendance2\<rparr>))"

section \<open>Assignments and projects\<close>

definition get_assignments :: "world \<Rightarrow> (string, assignment list) dict \<times> world" where
  "get_assignments st =
     (let (doc, file) = load_data [] (assignments_file st)
      in (doc, st\<lparr>assignments_file := file\<rparr>))"

definition create_assignment ::
  "clock \<Rightarrow> string \<Rightarrow> string \<Rightarrow> string \<Rightarrow> string \<Rightarrow> int \<Rightarrow> world \<Rightarrow> result \<times> world" where
  "create_assignment now course_id title description due_date max_points st =
     (let (assignments, st1) = get_assignments st;
          assignments1 = (if \<not> has_key assignments course_id
                          then AList.update course_id [] assignments else assignments);
          entries = get_or assignments1 course_id [];
          assignment_id = course_id @ ''_'' @ str_nat (length entries + 1);
          entry = \<lparr>a_assignment_id = assignment_id, a_title = title,
                   a_description = description, a_due_date = due_date,
                   a_max_points = max_points, a_created_at = isoformat now\<rparr>
      in (Tuple3 True ''Assignment created successfully'' assignment_id,
          st1\<lparr>assignments_file :=
                 save_data (AList.update course_id (entries @ [entry]) assignments1)\<rparr>))"

text \<open>The keyword arguments of \<^verbatim>\<open>update_assignment\<close>, as the pages pass them.\<close>

record assignment_kwargs =
  kw_title :: "string option"
  kw_a_description :: "string option"
  kw_due_date :: "string option"
  kw_max_points :: "int option"

definition update_assignment ::
  "string \<Rightarrow> string \<Rightarrow> assignment_kwargs \<Rightarrow> world \<Rightarrow> result \<times> world" where
  "update_assignment course_id assignment_id kwargs st =
     (let (assignments, st1) = get_assignments st
      in case map_of assignments course_id of
           None \<Rightarrow> (Tuple2 False ''Course not found'', st1)
         | Some entries \<Rightarrow>
             (case update_first (\<lambda>a. a_assignment_id a = assignment_id)
                     (\<lambda>a. a\<lparr>a_title := given (kw_title kwargs) (a_title a),
                             a_description := given (kw_a_description kwargs) (a_description a),
                             a_due_date := given (kw_due_date kwargs) (a_due_date a),
                             a_max_points := given (kw_max_points kwargs) (a_max_points a)\<rparr>)
                     entries of
                Some entries1 \<Rightarrow>
                  (Tuple2 True ''Assignment updated successfully'',
                   st1\<lparr>assignments_file :=
                          save_data (AList.update course_id entries1 assignments)\<rparr>)
              | None \<Rightarrow> (Tuple2 False ''Assignment not found'', st1)))"

definition delete_assignment :: "string \<Rightarrow> string \<Rightarrow> world \<Rightarrow> result \<times> world" where
  "delete_assignment course_id assignment_id st =
     (let (assignments, st1) = get_assignments st
      in case map_of assignments course_id of
           None \<Rightarrow> (Tuple2 False ''Course not found'', st1)
         | Some entries \<Rightarrow>
             (case delete_first (\<lambda>a. a_assignment_id a = assignment_id) entries of
                Some entries1 \<Rightarrow>
                  (Tuple2 True ''Assignment deleted successfully'',
                   st1\<lparr>assignments_file :=
                          save_data (AList.update course_id entries1 assignments)\<rparr>)
              | None \<Rightarrow> (Tuple2 False ''Assignment not found'', st1)))"

definition get_projects :: "world \<Rightarrow> (string, project list) dict \<times> world" where
  "get_projects st =
     (let (doc, file) = load_data [] (projects_file st)
      in (doc, st\<lparr>projects_file := file\<rparr>))"

definition create_project ::
  "clock \<Rightarrow> string \<Rightarrow> string \<Rightarrow> string \<Rightarrow> string \<Rightarrow> int \<Rightarrow> bool \<Rightarrow> world \<Rightarrow> result \<times> world" where
  "create_project now course_id title description due_date max_points group_project st =
     (let (projects, st1) = get_projects st;
          projects1 = (if \<not> has_key projects course_id
                       then AList.update course_id [] projects else projects);
          entries = get_or projects1 course_id [];
          project_id = course_id @ ''_project_'' @ str_nat (length entries + 1);
          entry = \<lparr>p_project_id = project_id, p_title = title, p_description = description,
                   p_due_date = due_date, p_max_points = max_points,
                   p_group_project = group_project, p_created_at = isoformat now\<rparr>
      in (Tuple3 True ''Project created successfully'' project_id,
          st1\<lparr>projects_file :=
                 save_data (AList.update course_id (entries @ [entry]) projects1)\<rparr>))"

section \<open>Removing a student from a course\<close>

text \<open>
  The two loops over the course's assignments and projects: each one that has a key in
  the submissions document loses the student's entries.
\<close>

definition drop_student ::
  "string \<Rightarrow> string list \<Rightarrow> (string, submission list) dict \<Rightarrow> (string, submission list) dict" where
  "drop_student student_email ids submissions =
     fold (\<lambda>i subs. case map_of subs i of
                       None \<Rightarrow> subs
                     | Some entries \<Rightarrow>
                         AList.update i (filter (\<lambda>s. s_student_email s \<noteq> student_email) entries)
                           subs)
          ids submissions"

definition remove_student_from_course :: "string \<Rightarrow> string \<Rightarrow> world \<Rightarrow> result \<times> world" where
  "remove_student_from_course course_id student_email st =
     (let (attendance, st1) = get_attendance st
      in case map_of attendance course_id of
           None \<Rightarrow> (Tuple2 False ''Course not found'', st1)
         | Some dates \<Rightarrow>
             let removed = list_ex (\<lambda>(date, students). has_key students student_email) dates;
                 dates1 = map (\<lambda>(date, students). (date, AList.delete student_email students))
                              dates
             in if removed
                then
                  let st2 = st1\<lparr>attendance_file :=
                                  save_data (AList.update course_id dates1 attendance)\<rparr>;
                      (submissions, st3) = get_submissions st2;
                      (all_assignments, st4) = get_assignments st3;
                      (all_projects, st5) = get_projects st4;
                      assignments = get_or all_assignments course_id [];
                      projects = get_or all_projects course_id [];
                      submissions1 = drop_student student_email
                                       (map a_assignment_id assignments) submissions;
                      submissions2 = drop_student student_email
                                       (map p_project_id projects) submissions1
                  in (Tuple2 True (''Student '' @ student_email @ '' removed from course ''
                                     @ course_id),
                      st5\<lparr>submissions_file := save_data submissions2\<rparr>)
                else (Tuple2 False (''Student '' @ student_email @ '' not found in course ''
                                      @ course_id), st1))"

section \<open>Certificates\<close>

definition get_certificates :: "world \<Rightarrow> (string, certificate list) dict \<times> world" where
  "get_certificates st =
     (let (doc, file) = load_data [] (certificates_file st)
      in (doc, st\<lparr>certificates_file := file\<rparr>))"

definition submit_certificate ::
  "clock \<Rightarrow> string \<Rightarrow> string \<Rightarrow> string \<Rightarrow> string \<Rightarrow> string option \<Rightarrow> world \<Rightarrow> result \<times> world" where
  "submit_certificate now student_email title issuing_organization issue_date file_path st =
     (let (certificates, st1) = get_certificates st;
          certificates1 = (if \<not> has_key certificates student_email
                           then AList.update student_email [] certificates else certificates);
          entries = get_or certificates1 student_email [];
          certificate_id = student_email @ ''_'' @ str_nat (length entries + 1);
          entry = \<lparr>ct_certificate_id = certificate_id, ct_title = title,
                   ct_issuing_organization = issuing_organization,
                   ct_issue_date = issue_date, ct_file_path = file_path,
                   ct_submitted_at = isoformat now, ct_verified = False,
                   ct_verified_at = None\<rparr>
      in (Tuple2 True ''Certificate submitted successfully'',
          st1\<lparr>certificates_file :=
                 save_data (AList.update student_email (entries @ [entry]) certificates1)\<rparr>))"

definition verify_certificate ::
  "clock \<Rightarrow> string \<Rightarrow> string \<Rightarrow> world \<Rightarrow> result \<times> world" where
  "verify_certificate now student_email certificate_id st =
     (let (certificates, st1) = get_certificates st
      in case map_of certificates student_email of
           None \<Rightarrow> (Tuple2 False ''Student not found'', st1)
         | Some entries \<Rightarrow>
             (case update_first (\<lambda>c. ct_certificate_id c = certificate_id)
                     (\<lambda>c. c\<lparr>ct_verified := True, ct_verified_at := Some (isoformat now)\<rparr>)
                     entries of
                Some entries1 \<Rightarrow>
                  (Tuple2 True ''Certificate verified successfully'',
                   st1\<lparr>certificates_file :=
                          save_data (AList.update student_email entries1 certificates)\<rparr>)
              | None \<Rightarrow> (Tuple2 False ''Certificate not found'', st1)))"

text \<open>
  The JSON text that \<^verbatim>\<open>json.dump\<close> writes for the certificates document, as
  \<^verbatim>\<open>json.load\<close> reads it back: a dictionary from the student's email to the list of
  the student's certificates.
\<close>

definition certificate_json :: "certificate \<Rightarrow> json" where
  "certificate_json c =
     JObj ([(''certificate_id'', JStr (ct_certificate_id c)),
            (''title'', JStr (ct_title c)),
            (''issuing_organization'', JStr (ct_issuing_organization c)),
            (''issue_date'', JStr (ct_issue_date c)),
            (''file_path'', case ct_file_path c of None \<Rightarrow> JNull | Some f \<Rightarrow> JStr f),
            (''submitted_at'', JStr (ct_submitted_at c)),
            (''verified'', JBool (ct_verified c))]
           @ (case ct_verified_at c of None \<Rightarrow> [] | Some t \<Rightarrow> [(''verified_at'', JStr t)]))"

definition certificates_json :: "(string, certificate list) dict \<Rightarrow> json" where
  "certificates_json doc =
     JObj (map (\<lambda>(student_email, entries). (student_email, JArr (map certificate_json entries)))
               doc)"

text \<open>
  \<^verbatim>\<open>load_data("certificates.json")\<close>: the path is relative, so the file is the one
  of that name in the working directory. Missing, it is created as \<^verbatim>\<open>{}\<close>.
\<close>

definition load_relative_certificates :: "world \<Rightarrow> json \<times> world" where
  "load_relative_certificates st =
     (if cwd_is_data_dir st
      then let (doc, st1) = get_certificates st in (certificates_json doc, st1)
      else let (doc, file) = load_data (JObj []) (cwd_certificates_file st)
           in (doc, st\<lparr>cwd_certificates_file := file\<rparr>))"

text \<open>
  The loop \<^verbatim>\<open>for cert_id, cert in certificates.items()\<close> with \<^verbatim>\<open>cert.get\<close>: a value
  that is not a dictionary has no \<^verbatim>\<open>get\<close>, and the call raises \<^verbatim>\<open>AttributeError\<close>.
\<close>

fun filter_certificates ::
  "string \<Rightarrow> (string \<times> json) list \<Rightarrow> (string, json) dict list \<Rightarrow> py_error + (string, json) dict list"
  where
  "filter_certificates student_email [] student_certificates = Inr student_certificates"
| "filter_certificates student_email ((cert_id, cert) # rest) student_certificates =
     (case cert of
        JObj cert_fields \<Rightarrow>
          if map_of cert_fields ''student_email'' = Some (JStr student_email)
          then filter_certificates student_email rest
                 (student_certificates @ [AList.update ''certificate_id'' (JStr cert_id) cert_fields])
          else filter_certificates student_email rest student_certificates
      | _ \<Rightarrow> Inl AttributeError)"

definition get_student_certificates ::
  "string \<Rightarrow> world \<Rightarrow> (py_error + (string, json) dict list) \<times> world" where
  "get_student_certificates student_email st =
     (let (certificates, st1) = load_relative_certificates st
      in case certificates of
           JObj items \<Rightarrow> (filter_certificates student_email items [], st1)
         | _ \<Rightarrow> (Inl AttributeError, st1))"

section \<open>Announcements\<close>

definition get_announcements :: "world \<Rightarrow> announcement list \<times> world" where
  "get_announcements st =
     (let (doc, file) = load_data [] (announcements_file st)
      in (doc, st\<lparr>announcements_file := file\<rparr>))"

definition create_announcement ::
  "clock \<Rightarrow> string \<Rightarrow> string \<Rightarrow> string \<Rightarrow> string list option \<Rightarrow> string list option
     \<Rightarrow> string list option \<Rightarrow> world \<Rightarrow> result \<times> world" where
  "create_announcement now title content author_email target_roles target_departments
       target_emails st =
     (let (announcements, st1) = get_announcements st;
          announcement_id = length announcements + 1;
          entry = \<lparr>an_announcement_id = announcement_id, an_title = title,
                   an_content = content, an_author_email = author_email,
                   an_target_roles = target_roles,
                   an_target_departments = target_departments,
                   an_target_emails = target_emails, an_created_at = isoformat now\<rparr>
      in (Tuple2 True ''Announcement created successfully'',
          st1\<lparr>announcements_file := save_data (announcements @ [entry])\<rparr>))"

definition delete_announcement :: "nat \<Rightarrow> world \<Rightarrow> result \<times> world" where
  "delete_announcement announcement_id st =
     (let (announcements, st1) = get_announcements st
      in case delete_first (\<lambda>a. an_announcement_id a = announcement_id) announcements of
           Some announcements1 \<Rightarrow>
             (Tuple2 True ''Announcement deleted successfully'',
              st1\<lparr>announcements_file := save_data announcements1\<rparr>)
         | None \<Rightarrow> (Tuple2 False ''Announcement not found'', st1))"

text \<open>
  Python truth values: \<^verbatim>\<open>None\<close>, the empty string and the empty list are false.
  \<open>truthy\<close> is the test \<^verbatim>\<open>if x\<close> on an optional string or list, and \<open>matches\<close> is
  \<^verbatim>\<open>x and targets and x in targets\<close>.
\<close>

definition truthy :: "'a list option \<Rightarrow> bool" where
  "truthy x = (case x of None \<Rightarrow> False | Some v \<Rightarrow> v \<noteq> [])"

definition matches :: "string option \<Rightarrow> string list option \<Rightarrow> bool" where
  "matches x targets =
     (truthy x \<and> truthy targets \<and>
      (case (x, targets) of (Some v, Some ts) \<Rightarrow> v \<in> set ts | _ \<Rightarrow> False))"

definition visible :: "string option \<Rightarrow> string option \<Rightarrow> string option \<Rightarrow> announcement \<Rightarrow> bool"
  where
  "visible role department email a =
     ((\<not> truthy (an_target_roles a) \<and> \<not> truthy (an_target_departments a)
         \<and> \<not> truthy (an_target_emails a))
      \<or> matches role (an_target_roles a)
      \<or> matches department (an_target_departments a)
      \<or> matches email (an_target_emails a))"

definition get_filtered_announcements ::
  "string option \<Rightarrow> string option \<Rightarrow> string option \<Rightarrow> world \<Rightarrow> announcement list \<times> world" where
  "get_filtered_announcements role department email st =
     (let (announcements, st1) = get_announcements st
      in (filter (visible role department email) announcements, st1))"

section \<open>Subjects, exams and exam results\<close>

definition get_subjects :: "world \<Rightarrow> (string, subject) dict \<times> world" where
  "get_subjects st =
     (let (doc, file) = load_data [] (subjects_file st)
      in (doc, st\<lparr>subjects_file := file\<rparr>))"

definition add_subject :: "clock \<Rightarrow> string \<Rightarrow> int \<Rightarrow> string option \<Rightarrow> world \<Rightarrow> result \<times> world" where
  "add_subject now subject_name semester department st =
     (let (subjects, st1) = get_subjects st;
          subject_id = ''subject_'' @ str_nat (length subjects + 1) @ ''_'' @ stamp now;
          entry = \<lparr>sb_subject_id = subject_id, sb_subject_name = subject_name,
                   sb_semester = semester, sb_department = department\<rparr>
      in (PyStr subject_id,
          st1\<lparr>subjects_file := save_data (AList.update subject_id entry subjects)\<rparr>))"

text \<open>\<^verbatim>\<open>if semester:\<close> on an optional number: \<^verbatim>\<open>None\<close> and zero are false.\<close>

definition truthy_num :: "int option \<Rightarrow> bool" where
  "truthy_num x = (case x of None \<Rightarrow> False | Some n \<Rightarrow> n \<noteq> 0)"

definition update_subject ::
  "string \<Rightarrow> string option \<Rightarrow> int option \<Rightarrow> string option \<Rightarrow> world \<Rightarrow> result \<times> world" where
  "update_subject subject_id subject_name semester department st =
     (let (subjects, st1) = get_subjects st
      in case map_of subjects subject_id of
           None \<Rightarrow> (PyBool False, st1)
         | Some sb \<Rightarrow>
             let sb1 = (if truthy subject_name
                        then sb\<lparr>sb_subject_name := the subject_name\<rparr> else sb);
                 sb2 = (if truthy_num semester then sb1\<lparr>sb_semester := the semester\<rparr> else sb1);
                 sb3 = (if truthy department then sb2\<lparr>sb_department := department\<rparr> else sb2)
             in (PyBool True,
                 st1\<lparr>subjects_file := save_data (AList.update subject_id sb3 subjects)\<rparr>))"

definition delete_subject :: "string \<Rightarrow> world \<Rightarrow> result \<times> world" where
  "delete_subject subject_id st =
     (let (subjects, st1) = get_subjects st
      in if \<not> has_key subjects subject_id then (PyBool False, st1)
         else (PyBool True,
               st1\<lparr>subjects_file := save_data (AList.delete subject_id subjects)\<rparr>))"

definition get_exams :: "world \<Rightarrow> (string, exam) dict \<times> world" where
  "get_exams st =
     (let (doc, file) = load_data [] (exams_file st)
      in (doc, st\<lparr>exams_file := file\<rparr>))"

definition add_exam ::
  "clock \<Rightarrow> string \<Rightarrow> string \<Rightarrow> int \<Rightarrow> string \<Rightarrow> int \<Rightarrow> world \<Rightarrow> result \<times> world" where
  "add_exam now exam_name exam_type semester date max_marks st =
     (let (exams, st1) = get_exams st;
          exam_id = ''exam_'' @ str_nat (length exams + 1) @ ''_'' @ stamp now;
          entry = \<lparr>e_exam_id = exam_id, e_exam_name = exam_name, e_exam_type = exam_type,
                   e_semester = semester, e_date = date, e_max_marks = max_marks,
                   e_created_at = spaced now\<rparr>
      in (PyStr exam_id,
          st1\<lparr>exams_file := save_data (AList.update exam_id entry exams)\<rparr>))"

definition update_exam ::
  "string \<Rightarrow> string option \<Rightarrow> string option \<Rightarrow> int option \<Rightarrow> string option \<Rightarrow> int option \<Rightarrow> world
     \<Rightarrow> result \<times> world" where
  "update_exam exam_id exam_name exam_type semester date max_marks st =
     (let (exams, st1) = get_exams st
      in case map_of exams exam_id of
           None \<Rightarrow> (PyBool False, st1)
         | Some e \<Rightarrow>
             let e1 = (if truthy exam_name then e\<lparr>e_exam_name := the exam_name\<rparr> else e);
                 e2 = (if truthy exam_type then e1\<lparr>e_exam_type := the exam_type\<rparr> else e1);
                 e3 = (if truthy_num semester then e2\<lparr>e_semester := the semester\<rparr> else e2);
                 e4 = (if truthy date then e3\<lparr>e_date := the date\<rparr> else e3);
                 e5 = (if truthy_num max_marks then e4\<lparr>e_max_marks := the max_marks\<rparr> else e4)
             in (PyBool True,
                 st1\<lparr>exams_file := save_data (AList.update exam_id e5 exams)\<rparr>))"

definition get_exam_results ::
  "world \<Rightarrow> (string, (string, (string, exam_result) dict) dict) dict \<times> world" where
  "get_exam_results st =
     (let (doc, file) = load_data [] (exam_results_file st)
      in (doc, st\<lparr>exam_results_file := file\<rparr>))"

definition delete_exam_results :: "string \<Rightarrow> world \<Rightarrow> result \<times> world" where
  "delete_exam_results exam_id st =
     (let (results, st1) = get_exam_results st
      in if \<not> has_key results exam_id then (PyBool False, st1)
         else (PyBool True,
               st1\<lparr>exam_results_file := save_data (AList.delete exam_id results)\<rparr>))"

text \<open>\<^verbatim>\<open>delete_exam\<close> calls \<^verbatim>\<open>delete_exam_results\<close> and drops what it returns.\<close>

definition delete_exam :: "string \<Rightarrow> world \<Rightarrow> result \<times> world" where
  "delete_exam exam_id st =
     (let (exams, st1) = get_exams st
      in if \<not> has_key exams exam_id then (PyBool False, st1)
         else
           let st2 = st1\<lparr>exams_file := save_data (AList.delete exam_id exams)\<rparr>;
               (dropped, st3) = delete_exam_results exam_id st2
           in (PyBool True, st3))"

definition add_exam_result ::
  "clock \<Rightarrow> string \<Rightarrow> string \<Rightarrow> string \<Rightarrow> int \<Rightarrow> string option \<Rightarrow> world \<Rightarrow> result \<times> world" where
  "add_exam_result now exam_id student_email subject_id marks remarks st =
     (let (results, st1) = get_exam_results st;
          results1 = (if \<not> has_key results exam_id
                      then AList.update exam_id [] results else results);
          students = get_or results1 exam_id [];
          students1 = (if \<not> has_key students student_email
                       then AList.update student_email [] students else students);
          marks_by_subject = get_or students1 student_email [];
          entry = \<lparr>r_marks = marks, r_remarks = remarks, r_updated_at = spaced now\<rparr>;
          students2 = AList.update student_email
                        (AList.update subject_id entry marks_by_subject) students1
      in (PyBool True,
          st1\<lparr>exam_results_file := save_data (AList.update exam_id students2 results1)\<rparr>))"

definition delete_exam_result :: "string \<Rightarrow> string \<Rightarrow> string \<Rightarrow> world \<Rightarrow> result \<times> world" where
  "delete_exam_result exam_id student_email subject_id st =
     (let (results, st1) = get_exam_results st
      in case map_of results exam_id of
           None \<Rightarrow> (PyBool False, st1)
         | Some students \<Rightarrow>
             (case map_of students student_email of
                None \<Rightarrow> (PyBool False, st1)
              | Some marks_by_subject \<Rightarrow>
                  if \<not> has_key marks_by_subject subject_id then (PyBool False, st1)
                  else
                    let marks1 = AList.delete subject_id marks_by_subject;
                        students1 = (if marks1 = [] then AList.delete student_email students
                                     else AList.update student_email marks1 students);
                        results1 = (if students1 = [] then AList.delete exam_id results
                                    else AList.update exam_id students1 results)
                    in (PyBool True, st1\<lparr>exam_results_file := save_data results1\<rparr>)))"

section \<open>Departments\<close>

definition default_departments :: "clock \<Rightarrow> (string, department) dict" where
  "default_departments now =
     [(''CS'', \<lparr>d_name = ''Computer Science'', d_hod_email = ''teacher@college.edu'',
               d_description = ''Department of Computer Science'',
               d_created_at = isoformat now\<rparr>),
      (''MATH'', \<lparr>d_name = ''Mathematics'', d_hod_email = ''teacher@college.edu'',
                 d_description = ''Department of Mathematics'',
                 d_created_at = isoformat now\<rparr>),
      (''PHY'', \<lparr>d_name = ''Physics'', d_hod_email = ''teacher@college.edu'',
                d_description = ''Department of Physics'',
                d_created_at = isoformat now\<rparr>)]"

text \<open>
  \<^verbatim>\<open>get_departments\<close> writes the three default departments when the file is missing
  (their three time stamps taken at the same instant).
\<close>

definition get_departments :: "clock \<Rightarrow> world \<Rightarrow> (string, department) dict \<times> world" where
  "get_departments now st =
     (let (doc, file) = load_data (default_departments now) (departments_file st)
      in (doc, st\<lparr>departments_file := file\<rparr>))"

definition save_departments :: "(string, department) dict \<Rightarrow> world \<Rightarrow> world" where
  "save_departments departments st = st\<lparr>departments_file := save_data departments\<rparr>"

definition add_department ::
  "clock \<Rightarrow> string \<Rightarrow> string \<Rightarrow> string \<Rightarrow> string \<Rightarrow> world \<Rightarrow> result \<times> world" where
  "add_department now dept_id dept_name hod_email description st =
     (let (departments, st1) = get_departments now st
      in if has_key departments dept_id then (Tuple2 False ''Department ID already exists'', st1)
         else
           let d = \<lparr>d_name = dept_name, d_hod_email = hod_email, d_description = description,
                    d_created_at = isoformat now\<rparr>
           in (Tuple2 True ''Department added successfully'',
               save_departments (AList.update dept_id d departments) st1))"

definition update_department ::
  "clock \<Rightarrow> string \<Rightarrow> string \<Rightarrow> string \<Rightarrow> string \<Rightarrow> world \<Rightarrow> result \<times> world" where
  "update_department now dept_id dept_name hod_email description st =
     (let (departments, st1) = get_departments now st
      in case map_of departments dept_id of
           None \<Rightarrow> (Tuple2 False ''Department not found'', st1)
         | Some d \<Rightarrow>
             let d1 = d\<lparr>d_name := dept_name, d_hod_email := hod_email,
                        d_description := description\<rparr>
             in (Tuple2 True ''Department updated successfully'',
                 save_departments (AList.update dept_id d1 departments) st1))"

text \<open>
  The loop over \<^verbatim>\<open>courses.items()\<close> returns at the first course whose
  \<^verbatim>\<open>department\<close> equals the department's name.
\<close>

definition in_use :: "string \<Rightarrow> (string, course) dict \<Rightarrow> bool" where
  "in_use dept_name courses =
     list_ex (\<lambda>(course_id, c). c_department c = Some dept_name) courses"

definition delete_department :: "clock \<Rightarrow> string \<Rightarrow> world \<Rightarrow> result \<times> world" where
  "delete_department now dept_id st =
     (let (departments, st1) = get_departments now st
      in case map_of departments dept_id of
           None \<Rightarrow> (Tuple2 False ''Department not found'', st1)
         | Some d \<Rightarrow>
             let (courses, st2) = get_courses st1
             in if in_use (d_name d) courses
                then (Tuple2 False ''Cannot delete department that is in use by courses'', st2)
                else (Tuple2 True ''Department deleted successfully'',
                      save_departments (AList.delete dept_id departments) st2))"

section \<open>The mutating operations as one interface\<close>

text \<open>
  Every mutating function of the three modules, with its arguments, and the function
  that runs one of them. It adds nothing to the functions; it lets a property be stated
  once for all of them.
\<close>

datatype call =
    CreateUser string string string "(string, json) dict"
  | UpdateUser string user_kwargs
  | DeleteUser string
  | AddCourse string string string string string int
  | UpdateCourse string course_kwargs
  | DeleteCourse string
  | MarkAttendance string string string string
  | RemoveStudentFromCourse string string
  | CreateAssignment string string string string int
  | UpdateAssignment string string assignment_kwargs
  | DeleteAssignment string string
  | SubmitAssignment string string string "string option"
  | GradeSubmission string string int "string option"
  | CreateProject string string string string int bool
  | SubmitProject string string string "string option" "string list option"
  | SubmitCertificate string string string string "string option"
  | VerifyCertificate string string
  | CreateAnnouncement string string string "string list option" "string list option"
      "string list option"
  | DeleteAnnouncement nat
  | AddSubject string int "string option"
  | UpdateSubject string "string option" "int option" "string option"
  | DeleteSubject string
  | AddExam string string int string int
  | UpdateExam string "string option" "string option" "int option" "string option" "int option"
  | DeleteExam string
  | AddExamResult string string string int "string option"
  | DeleteExamResult string string string
  | DeleteExamResults string
  | AddDepartment string string string string
  | UpdateDepartment string string string string
  | DeleteDepartment string

primrec run :: "(string \<Rightarrow> string) \<Rightarrow> clock \<Rightarrow> call \<Rightarrow> world \<Rightarrow> result \<times> world" where
  "run H now (CreateUser email password role kwargs) st =
     create_user H now email password role kwargs st"
| "run H now (UpdateUser email kwargs) st = update_user H now email kwargs st"
| "run H now (DeleteUser email) st = delete_user H now email st"
| "run H now (AddCourse course_id course_name department teacher_email description credits) st =
     add_course now course_id course_name department teacher_email description credits st"
| "run H now (UpdateCourse course_id kwargs) st = update_course course_id kwargs st"
| "run H now (DeleteCourse course_id) st = delete_course course_id st"
| "run H now (MarkAttendance course_id date student_email status) st =
     mark_attendance now course_id date student_email status st"
| "run H now (RemoveStudentFromCourse course_id student_email) st =
     remove_student_from_course course_id student_email st"
| "run H now (CreateAssignment course_id title description due_date max_points) st =
     create_assignment now course_id title description due_date max_points st"
| "run H now (UpdateAssignment course_id assignment_id kwargs) st =
     update_assignment course_id assignment_id kwargs st"
| "run H now (DeleteAssignment course_id assignment_id) st =
     delete_assignment course_id assignment_id st"
| "run H now (SubmitAssignment assignment_id student_email submission_text file_path) st =
     submit_assignment now assignment_id student_email submission_text file_path st"
| "run H now (GradeSubmission assignment_id student_email grade feedback) st =
     grade_submission now assignment_id student_email grade feedback st"
| "run H now (CreateProject course_id title description due_date max_points group_project) st =
     create_project now course_id title description due_date max_points group_project st"
| "run H now (SubmitProject project_id student_email submission_text file_path group_members) st =
     submit_project now project_id student_email submission_text file_path group_members st"
| "run H now (SubmitCertificate student_email title issuing_organization issue_date file_path) st =
     submit_certificate now student_email title issuing_organization issue_date file_path st"
| "run H now (VerifyCertificate student_email certificate_id) st =
     verify_certificate now student_email certificate_id st"
| "run H now (CreateAnnouncement title content author_email target_roles target_departments
                target_emails) st =
     create_announcement now title content author_email target_roles target_departments
       target_emails st"
| "run H now (DeleteAnnouncement announcement_id) st = delete_announcement announcement_id st"
| "run H now (AddSubject subject_name semester department) st =
     add_subject now subject_name semester department st"
| "run H now (UpdateSubject subject_id subject_name semester department) st =
     update_subject subject_id subject_name semester department st"
| "run H now (DeleteSubject subject_id) st = delete_subject subject_id st"
| "run H now (AddExam exam_name exam_type semester date max_marks) st =
     add_exam now exam_name exam_type semester date max_marks st"
| "run H now (UpdateExam exam_id exam_name exam_type semester date max_marks) st =
     update_exam exam_id exam_name exam_type semester date max_marks st"
| "run H now (DeleteExam exam_id) st = delete_exam exam_id st"
| "run H now (AddExamResult exam_id student_email subject_id marks remarks) st =
     add_exam_result now exam_id student_email subject_id marks remarks st"
| "run H now (DeleteExamResult exam_id student_email subject_id) st =
     delete_exam_result exam_id student_email subject_id st"
| "run H now (DeleteExamResults exam_id) st = delete_exam_results exam_id st"
| "run H now (AddDepartment dept_id dept_name hod_email description) st =
     add_department now dept_id dept_name hod_email description st"
| "run H now (UpdateDepartment dept_id dept_name hod_email description) st =
     update_department now dept_id dept_name hod_email description st"
| "run H now (DeleteDepartment dept_id) st = delete_department now dept_id st"

text \<open>A call reports failure when it returns \<^verbatim>\<open>False\<close>, bare or first in its tuple.\<close>

fun reports_failure :: "result \<Rightarrow> bool" where
  "reports_failure (Tuple2 ok message) = (\<not> ok)"
| "reports_failure (Tuple3 ok message generated_id) = (\<not> ok)"
| "reports_failure (PyBool ok) = (\<not> ok)"
| "reports_failure (PyStr generated_id) = False"

text \<open>
  What a call without a save can do to a file: nothing, or, where the file was missing,
  create it with the default document of its loader.
\<close>

definition untouched :: "'a \<Rightarrow> 'a option \<Rightarrow> 'a option \<Rightarrow> bool" where
  "untouched dflt before after = (after = before \<or> (before = None \<and> after = Some dflt))"

definition no_save :: "(string \<Rightarrow> string) \<Rightarrow> clock \<Rightarrow> world \<Rightarrow> world \<Rightarrow> bool" where
  "no_save H now st st' =
     (untouched (default_users H now) (users_file st) (users_file st') \<and>
      untouched [] (courses_file st) (courses_file st') \<and>
      untouched [] (attendance_file st) (attendance_file st') \<and>
      untouched [] (assignments_file st) (assignments_file st') \<and>
      untouched [] (submissions_file st) (submissions_file st') \<and>
      untouched [] (projects_file st) (projects_file st') \<and>
      untouched [] (certificates_file st) (certificates_file st') \<and>
      untouched [] (announcements_file st) (announcements_file st') \<and>
      untouched [] (exams_file st) (exams_file st') \<and>
      untouched [] (subjects_file st) (subjects_file st') \<and>
      untouched [] (exam_results_file st) (exam_results_file st') \<and>
      untouched (default_departments now) (departments_file st) (departments_file st') \<and>
      untouched (JObj []) (cwd_certificates_file st) (cwd_certificates_file st') \<and>
      cwd_is_data_dir st' = cwd_is_data_dir st \<and>
      session_user st' = session_user st)"

text \<open>A document that was persisted before is the same document after.\<close>

definition kept :: "'a option \<Rightarrow> 'a option \<Rightarrow> bool" where
  "kept before after = (case before of None \<Rightarrow> True | Some doc \<Rightarrow> after = Some doc)"

definition documents_kept :: "world \<Rightarrow> world \<Rightarrow> bool" where
  "documents_kept st st' =
     (kept (users_file st) (users_file st') \<and>
      kept (courses_file st) (courses_file st') \<and>
      kept (attendance_file st) (attendance_file st') \<and>
      kept (assignments_file st) (assignments_file st') \<and>
      kept (submissions_file st) (submissions_file st') \<and>
      kept (projects_file st) (projects_file st') \<and>
      kept (certificates_file st) (certificates_file st') \<and>
      kept (announcements_file st) (announcements_file st') \<and>
      kept (exams_file st) (exams_file st') \<and>
      kept (subjects_file st) (subjects_file st') \<and>
      kept (exam_results_file st) (exam_results_file st') \<and>
      kept (departments_file st) (departments_file st') \<and>
      kept (cwd_certificates_file st) (cwd_certificates_file st'))"

section \<open>Notions the properties are stated with\<close>

text \<open>What every loader returns, as one tuple: the contents of the store.\<close>

definition contents ::
  "(string \<Rightarrow> string) \<Rightarrow> clock \<Rightarrow> world \<Rightarrow>
     (string, user) dict \<times> (string, course) dict
     \<times> (string, (string, (string, mark) dict) dict) dict
     \<times> (string, assignment list) dict \<times> (string, submission list) dict
     \<times> (string, project list) dict \<times> (string, certificate list) dict
     \<times> announcement list \<times> (string, exam) dict \<times> (string, subject) dict
     \<times> (string, (string, (string, exam_result) dict) dict) dict
     \<times> (string, department) dict" where
  "contents H now st =
     (fst (get_users H now st), fst (get_courses st), fst (get_attendance st),
      fst (get_assignments st), fst (get_submissions st), fst (get_projects st),
      fst (get_certificates st), fst (get_announcements st), fst (get_exams st),
      fst (get_subjects st), fst (get_exam_results st), fst (get_departments now st))"

text \<open>The number of stored entries of a student under an assignment or project id.\<close>

definition submissions_by :: "string \<Rightarrow> string \<Rightarrow> world \<Rightarrow> nat" where
  "submissions_by assignment_id student_email st =
     length (filter (\<lambda>s. s_student_email s = student_email)
               (fst (get_assignment_submissions assignment_id st)))"

definition has_submission :: "string \<Rightarrow> string \<Rightarrow> world \<Rightarrow> bool" where
  "has_submission assignment_id student_email st =
     (0 < submissions_by assignment_id student_email st)"

text \<open>
  The visibility rule in the words of the specification: the announcement has no
  target at all, or the viewer's role, department or email is supplied and is among the
  targets of its kind. \<open>targets\<close> reads a target list, \<^verbatim>\<open>null\<close> being no target.
\<close>

definition targets :: "string list option \<Rightarrow> string list" where
  "targets x = (case x of None \<Rightarrow> [] | Some ts \<Rightarrow> ts)"

definition supplied_in :: "string option \<Rightarrow> string list option \<Rightarrow> bool" where
  "supplied_in x ts = (case x of None \<Rightarrow> False | Some v \<Rightarrow> v \<in> set (targets ts))"

definition claimed_visible ::
  "string option \<Rightarrow> string option \<Rightarrow> string option \<Rightarrow> announcement \<Rightarrow> bool" where
  "claimed_visible role department email a =
     ((targets (an_target_roles a) = [] \<and> targets (an_target_departments a) = []
         \<and> targets (an_target_emails a) = [])
      \<or> supplied_in role (an_target_roles a)
      \<or> supplied_in department (an_target_departments a)
      \<or> supplied_in email (an_target_emails a))"

text \<open>The same rule where a supplied value must also be a non-empty string.\<close>

definition nonempty_in :: "string option \<Rightarrow> string list option \<Rightarrow> bool" where
  "nonempty_in x ts =
     (case x of None \<Rightarrow> False | Some v \<Rightarrow> v \<noteq> [] \<and> v \<in> set (targets ts))"

definition amended_visible ::
  "string option \<Rightarrow> string option \<Rightarrow> string option \<Rightarrow> announcement \<Rightarrow> bool" where
  "amended_visible role department email a =
     ((targets (an_target_roles a) = [] \<and> targets (an_target_departments a) = []
         \<and> targets (an_target_emails a) = [])
      \<or> nonempty_in role (an_target_roles a)
      \<or> nonempty_in department (an_target_departments a)
      \<or> nonempty_in email (an_target_emails a))"

text \<open>The shapes of a returned value.\<close>

fun status_pair :: "result \<Rightarrow> bool" where
  "status_pair (Tuple2 ok message) = True"
| "status_pair (Tuple3 ok message generated_id) = True"
| "status_pair (PyStr generated_id) = False"
| "status_pair (PyBool ok) = False"

text \<open>
  The four shapes, and the shape each call returns: the triple for the two functions
  that create an assignment or a project, the bare id for \<^verbatim>\<open>add_subject\<close> and
  \<^verbatim>\<open>add_exam\<close>, the bare boolean for the other exam, subject and exam-result
  functions, and the pair for every other call.
\<close>

datatype shape = Pair | Triple | BareId | BareBool

fun shape_of :: "result \<Rightarrow> shape" where
  "shape_of (Tuple2 ok message) = Pair"
| "shape_of (Tuple3 ok message generated_id) = Triple"
| "shape_of (PyStr generated_id) = BareId"
| "shape_of (PyBool ok) = BareBool"

definition returned_shape :: "call \<Rightarrow> shape" where
  "returned_shape c =
     (case c of
        CreateAssignment course_id title description due_date max_points \<Rightarrow> Triple
      | CreateProject course_id title description due_date max_points group_project \<Rightarrow> Triple
      | AddSubject subject_name semester department \<Rightarrow> BareId
      | AddExam exam_name exam_type semester date max_marks \<Rightarrow> BareId
      | UpdateSubject subject_id subject_name semester department \<Rightarrow> BareBool
      | DeleteSubject subject_id \<Rightarrow> BareBool
      | UpdateExam exam_id exam_name exam_type semester date max_marks \<Rightarrow> BareBool
      | DeleteExam exam_id \<Rightarrow> BareBool
      | AddExamResult exam_id student_email subject_id marks remarks \<Rightarrow> BareBool
      | DeleteExamResult exam_id student_email subject_id \<Rightarrow> BareBool
      | DeleteExamResults exam_id \<Rightarrow> BareBool
      | _ \<Rightarrow> Pair)"

text \<open>
  The record stored for a (course, date, student) triple, the entries stored under
  the student's key there, and the well-formedness of the attendance document: as in
  any dictionary, no key occurs twice, at each of the three levels.
\<close>

definition attendance_of :: "string \<Rightarrow> string \<Rightarrow> string \<Rightarrow> world \<Rightarrow> mark option" where
  "attendance_of course_id date student_email st =
     map_of (get_or (get_or (fst (get_attendance st)) course_id []) date []) student_email"

definition records_for :: "string \<Rightarrow> string \<Rightarrow> string \<Rightarrow> world \<Rightarrow> (string \<times> mark) list" where
  "records_for course_id date student_email st =
     filter (\<lambda>(k, v). k = student_email)
       (get_or (get_or (fst (get_attendance st)) course_id []) date [])"

definition unique_keys :: "('k, 'v) dict \<Rightarrow> bool" where
  "unique_keys d = distinct (map fst d)"

definition wf_attendance :: "(string, (string, (string, mark) dict) dict) dict \<Rightarrow> bool" where
  "wf_attendance doc =
     (unique_keys doc \<and>
      list_all (\<lambda>(course_id, dates).
                  unique_keys dates \<and>
                  list_all (\<lambda>(date, students). unique_keys students) dates) doc)"

text \<open>
  The attendance document with the mark \<open>m\<close> written under the triple: what the
  three nested assignments of \<^verbatim>\<open>mark_attendance\<close> amount to.
\<close>

definition marked ::
  "string \<Rightarrow> string \<Rightarrow> string \<Rightarrow> mark \<Rightarrow> (string, (string, (string, mark) dict) dict) dict
     \<Rightarrow> (string, (string, (string, mark) dict) dict) dict" where
  "marked course_id date student_email m doc =
     AList.update course_id
       (AList.update date
          (AList.update student_email m (get_or (get_or doc course_id []) date []))
          (get_or doc course_id []))
       doc"

text \<open>Some course names the department, in the words of the specification.\<close>

definition some_course_in :: "string \<Rightarrow> world \<Rightarrow> bool" where
  "some_course_in dept_name st =
     (\<exists>c \<in> snd ` set (fst (get_courses st)). c_department c = Some dept_name)"

section \<open>Example states\<close>

definition clock0 :: clock where
  "clock0 = \<lparr>isoformat = ''2024-01-10T09:00:00'', stamp = ''20240110090000'',
             spaced = ''2024-01-10 09:00:00''\<rparr>"

definition clock1 :: clock where
  "clock1 = \<lparr>isoformat = ''2024-01-11T10:30:00'', stamp = ''20240111103000'',
             spaced = ''2024-01-11 10:30:00''\<rparr>"

text \<open>The store after \<^verbatim>\<open>init_data_files\<close>, before any user or department was read.\<close>

definition fresh :: world where
  "fresh = \<lparr>users_file = None, courses_file = Some [], attendance_file = Some [],
            assignments_file = Some [], submissions_file = Some [], projects_file = Some [],
            certificates_file = Some [], announcements_file = Some [], exams_file = Some [],
            subjects_file = Some [], exam_results_file = Some [], departments_file = None,
            cwd_is_data_dir = False, cwd_certificates_file = None, session_user = None\<rparr>"

text \<open>
  A small campus: the course CS101 of the department Computer Science, one submission of
  the demo student for the assignment CS101_1, one attendance mark, two announcements,
  two exams with results, and the default departments.
\<close>

definition campus :: world where
  "campus =
     \<lparr>users_file = Some (default_users rev clock0),
      courses_file =
        Some [(''CS101'', \<lparr>c_course_name = ''Programming'',
                            c_department = Some ''Computer Science'',
                            c_teacher_email = Some ''teacher@college.edu'',
                            c_description = [], c_credits = 3,
                            c_created_at = isoformat clock0\<rparr>)],
      attendance_file =
        Some [(''CS101'', [(''2024-01-10'',
                 [(''student@college.edu'',
                   \<lparr>m_status = ''Present'', m_marked_at = isoformat clock0\<rparr>)])])],
      assignments_file =
        Some [(''CS101'', [\<lparr>a_assignment_id = ''CS101_1'', a_title = ''Lists'',
                             a_description = [], a_due_date = ''2024-02-01'',
                             a_max_points = 100, a_created_at = isoformat clock0\<rparr>])],
      submissions_file =
        Some [(''CS101_1'', [\<lparr>s_student_email = ''student@college.edu'',
                               s_submission_text = ''answer'', s_file_path = None,
                               s_group_members = None,
                               s_submitted_at = isoformat clock0, s_grade = None,
                               s_feedback = None, s_graded_at = None\<rparr>])],
      projects_file = Some [],
      certificates_file = Some [],
      announcements_file =
        Some [\<lparr>an_announcement_id = 1, an_title = ''Welcome'', an_content = ''Hello'',
                an_author_email = ''admin@college.edu'', an_target_roles = None,
                an_target_departments = None, an_target_emails = None,
                an_created_at = isoformat clock0\<rparr>,
              \<lparr>an_announcement_id = 2, an_title = ''Staff meeting'', an_content = ''Monday'',
                an_author_email = ''admin@college.edu'', an_target_roles = Some [''teacher''],
                an_target_departments = None, an_target_emails = None,
                an_created_at = isoformat clock0\<rparr>],
      exams_file =
        Some [(''exam_1_20240110090000'',
               \<lparr>e_exam_id = ''exam_1_20240110090000'', e_exam_name = ''Midterm'',
                e_exam_type = ''Mid Sem 1'', e_semester = 1, e_date = ''2024-03-01'',
                e_max_marks = 100, e_created_at = spaced clock0\<rparr>),
              (''exam_2_20240110090000'',
               \<lparr>e_exam_id = ''exam_2_20240110090000'', e_exam_name = ''Final'',
                e_exam_type = ''End Sem'', e_semester = 1, e_date = ''2024-06-01'',
                e_max_marks = 100, e_created_at = spaced clock0\<rparr>)],
      subjects_file = Some [],
      exam_results_file =
        Some [(''exam_1_20240110090000'',
               [(''student@college.edu'',
                 [(''subject_1'', \<lparr>r_marks = 70, r_remarks = None,
                                    r_updated_at = spaced clock0\<rparr>)])]),
              (''exam_2_20240110090000'',
               [(''student@college.edu'',
                 [(''subject_1'', \<lparr>r_marks = 80, r_remarks = None,
                                    r_updated_at = spaced clock0\<rparr>)])])],
      departments_file = Some (default_departments clock0),
      cwd_is_data_dir = False,
      cwd_certificates_file = None,
      session_user = None\<rparr>"

text \<open>An announcement whose only target is the role with the empty name.\<close>

definition blank_role_notice :: announcement where
  "blank_role_notice =
     \<lparr>an_announcement_id = 1, an_title = ''Notice'', an_content = ''Read me'',
      an_author_email = ''admin@college.edu'', an_target_roles = Some [[]],
      an_target_departments = None, an_target_emails = None,
      an_created_at = isoformat clock0\<rparr>"

section \<open>Properties\<close>

lemma untouched_refl [simp]: "untouched dflt f f"
  by (simp add: untouched_def)

lemma no_save_refl [simp]: "no_save H now st st"
  by (simp add: no_save_def)

lemma untouched_load: "untouched dflt f (snd (load_data dflt f))"
  by (simp add: untouched_def load_data_def split: option.splits)

lemma untouched_trans:
  "untouched dflt a b \<Longrightarrow> untouched dflt b c \<Longrightarrow> untouched dflt a c"
  by (auto simp: untouched_def)

lemma no_save_trans:
  "no_save H now st st1 \<Longrightarrow> no_save H now st1 st2 \<Longrightarrow> no_save H now st st2"
  unfolding no_save_def
  by (elim conjE, intro conjI) (erule (1) untouched_trans | simp)+

lemma untouched_kept: "untouched dflt a b \<Longrightarrow> kept a b"
  by (auto simp: untouched_def kept_def split: option.splits)

lemma no_save_documents_kept: "no_save H now st st' \<Longrightarrow> documents_kept st st'"
  unfolding no_save_def documents_kept_def
  by (elim conjE, intro conjI) (erule untouched_kept)+

lemma load_data_fst: "fst (load_data dflt file) = (case file of None \<Rightarrow> dflt | Some doc \<Rightarrow> doc)"
  by (simp add: load_data_def split: option.splits)

lemma load_data_snd: "snd (load_data dflt file) = Some (fst (load_data dflt file))"
  by (simp add: load_data_def split: option.splits)

lemma get_users_fst: "fst (get_users H now st) = fst (load_data (default_users H now) (users_file st))"
  by (simp add: get_users_def split: prod.splits)

lemma get_users_snd: "snd (get_users H now st) = st\<lparr>users_file := Some (fst (get_users H now st))\<rparr>"
  by (simp add: get_users_def load_data_def split: prod.splits option.splits)

lemma get_courses_fst: "fst (get_courses st) = fst (load_data ([]) (courses_file st))"
  by (simp add: get_courses_def split: prod.splits)

lemma get_courses_snd: "snd (get_courses st) = st\<lparr>courses_file := Some (fst (get_courses st))\<rparr>"
  by (simp add: get_courses_def load_data_def split: prod.splits option.splits)

lemma get_attendance_fst: "fst (get_attendance st) = fst (load_data ([]) (attendance_file st))"
  by (simp add: get_attendance_def split: prod.splits)

lemma get_attendance_snd: "snd (get_attendance st) = st\<lparr>attendance_file := Some (fst (get_attendance st))\<rparr>"
  by (simp add: get_attendance_def load_data_def split: prod.splits option.splits)

lemma get_assignments_fst: "fst (get_assignments st) = fst (load_data ([]) (assignments_file st))"
  by (simp add: get_assignments_def split: prod.splits)

lemma get_assignments_snd: "snd (get_assignments st) = st\<lparr>assignments_file := Some (fst (get_assignments st))\<rparr>"
  by (simp add: get_assignments_def load_data_def split: prod.splits option.splits)

lemma get_submissions_fst: "fst (get_submissions st) = fst (load_data ([]) (submissions_file st))"
  by (simp add: get_submissions_def split: prod.splits)

lemma get_submissions_snd: "snd (get_submissions st) = st\<lparr>submissions_file := Some (fst (get_submissions st))\<rparr>"
  by (simp add: get_submissions_def load_data_def split: prod.splits option.splits)

lemma get_projects_fst: "fst (get_projects st) = fst (load_data ([]) (projects_file st))"
  by (simp add: get_projects_def split: prod.splits)

lemma get_projects_snd: "snd (get_projects st) = st\<lparr>projects_file := Some (fst (get_projects st))\<rparr>"
  by (simp add: get_projects_def load_data_def split: prod.splits option.splits)

lemma get_certificates_fst: "fst (get_certificates st) = fst (load_data ([]) (certificates_file st))"
  by (simp add: get_certificates_def split: prod.splits)

lemma get_certificates_snd: "snd (get_certificates st) = st\<lparr>certificates_file := Some (fst (get_certificates st))\<rparr>"
  by (simp add: get_certificates_def load_data_def split: prod.splits option.splits)

lemma get_announcements_fst: "fst (get_announcements st) = fst (load_data ([]) (announcements_file st))"
  by (simp add: get_announcements_def split: prod.splits)

lemma get_announcements_snd: "snd (get_announcements st) = st\<lparr>announcements_file := Some (fst (get_announcements st))\<rparr>"
  by (simp add: get_announcements_def load_data_def split: prod.splits option.splits)

lemma get_exams_fst: "fst (get_exams st) = fst (load_data ([]) (exams_file st))"
  by (simp add: get_exams_def split: prod.splits)

lemma get_exams_snd: "snd (get_exams st) = st\<lparr>exams_file := Some (fst (get_exams st))\<rparr>"
  by (simp add: get_exams_def load_data_def split: prod.splits option.splits)

lemma get_subjects_fst: "fst (get_subjects st) = fst (load_data ([]) (subjects_file st))"
  by (simp add: get_subjects_def split: prod.splits)

lemma get_subjects_snd: "snd (get_subjects st) = st\<lparr>subjects_file := Some (fst (get_subjects st))\<rparr>"
  by (simp add: get_subjects_def load_data_def split: prod.splits option.splits)

lemma get_exam_results_fst: "fst (get_exam_results st) = fst (load_data ([]) (exam_results_file st))"
  by (simp add: get_exam_results_def split: prod.splits)

lemma get_exam_results_snd: "snd (get_exam_results st) = st\<lparr>exam_results_file := Some (fst (get_exam_results st))\<rparr>"
  by (simp add: get_exam_results_def load_data_def split: prod.splits option.splits)

lemma get_departments_fst: "fst (get_departments now st) = fst (load_data (default_departments now) (departments_file st))"
  by (simp add: get_departments_def split: prod.splits)

lemma get_departments_snd: "snd (get_departments now st) = st\<lparr>departments_file := Some (fst (get_departments now st))\<rparr>"
  by (simp add: get_departments_def load_data_def split: prod.splits option.splits)

lemmas loaded = get_users_fst get_courses_fst get_attendance_fst get_assignments_fst get_submissions_fst get_projects_fst get_certificates_fst get_announcements_fst get_exams_fst get_subjects_fst get_exam_results_fst get_departments_fst

lemmas after_load = get_users_snd get_courses_snd get_attendance_snd get_assignments_snd get_submissions_snd get_projects_snd get_certificates_snd get_announcements_snd get_exams_snd get_subjects_snd get_exam_results_snd get_departments_snd

lemma get_users_no_save: "no_save H now st (snd (get_users H now st))"
  by (simp add: get_users_def no_save_def split: prod.splits)
     (metis untouched_load snd_conv)

lemma get_courses_no_save: "no_save H now st (snd (get_courses st))"
  by (simp add: get_courses_def no_save_def split: prod.splits)
     (metis untouched_load snd_conv)

lemma get_attendance_no_save: "no_save H now st (snd (get_attendance st))"
  by (simp add: get_attendance_def no_save_def split: prod.splits)
     (metis untouched_load snd_conv)

lemma get_assignments_no_save: "no_save H now st (snd (get_assignments st))"
  by (simp add: get_assignments_def no_save_def split: prod.splits)
     (metis untouched_load snd_conv)

lemma get_submissions_no_save: "no_save H now st (snd (get_submissions st))"
  by (simp add: get_submissions_def no_save_def split: prod.splits)
     (metis untouched_load snd_conv)

lemma get_projects_no_save: "no_save H now st (snd (get_projects st))"
  by (simp add: get_projects_def no_save_def split: prod.splits)
     (metis untouched_load snd_conv)

lemma get_certificates_no_save: "no_save H now st (snd (get_certificates st))"
  by (simp add: get_certificates_def no_save_def split: prod.splits)
     (metis untouched_load snd_conv)

lemma get_announcements_no_save: "no_save H now st (snd (get_announcements st))"
  by (simp add: get_announcements_def no_save_def split: prod.splits)
     (metis untouched_load snd_conv)

lemma get_exams_no_save: "no_save H now st (snd (get_exams st))"
  by (simp add: get_exams_def no_save_def split: prod.splits)
     (metis untouched_load snd_conv)

lemma get_subjects_no_save: "no_save H now st (snd (get_subjects st))"
  by (simp add: get_subjects_def no_save_def split: prod.splits)
     (metis untouched_load snd_conv)

lemma get_exam_results_no_save: "no_save H now st (snd (get_exam_results st))"
  by (simp add: get_exam_results_def no_save_def split: prod.splits)
     (metis untouched_load snd_conv)

lemma get_departments_no_save: "no_save H now st (snd (get_departments now st))"
  by (simp add: get_departments_def no_save_def split: prod.splits)
     (metis untouched_load snd_conv)

lemma create_user_failure:
  "reports_failure (fst (create_user H now email password role kwargs st)) \<Longrightarrow> no_save H now st (snd (create_user H now email password role kwargs st))"
  using get_users_no_save [of H now st]
  by (auto simp: create_user_def Let_def split: prod.splits option.splits if_splits)

lemma update_user_failure:
  "reports_failure (fst (update_user H now email kwargs st)) \<Longrightarrow> no_save H now st (snd (update_user H now email kwargs st))"
  using get_users_no_save [of H now st]
  by (auto simp: update_user_def Let_def split: prod.splits option.splits if_splits)

lemma delete_user_failure:
  "reports_failure (fst (delete_user H now email st)) \<Longrightarrow> no_save H now st (snd (delete_user H now email st))"
  using get_users_no_save [of H now st]
  by (auto simp: delete_user_def Let_def split: prod.splits option.splits if_splits)

lemma add_course_failure:
  "reports_failure (fst (add_course now course_id course_name department teacher_email description credits st)) \<Longrightarrow> no_save H now st (snd (add_course now course_id course_name department teacher_email description credits st))"
  using get_courses_no_save [of H now st]
  by (auto simp: add_course_def Let_def split: prod.splits option.splits if_splits)

lemma update_course_failure:
  "reports_failure (fst (update_course course_id kwargs st)) \<Longrightarrow> no_save H now st (snd (update_course course_id kwargs st))"
  using get_courses_no_save [of H now st]
  by (auto simp: update_course_def Let_def split: prod.splits option.splits if_splits)

lemma delete_course_failure:
  "reports_failure (fst (delete_course course_id st)) \<Longrightarrow> no_save H now st (snd (delete_course course_id st))"
  using get_courses_no_save [of H now st]
  by (auto simp: delete_course_def Let_def split: prod.splits option.splits if_splits)

lemma remove_student_from_course_failure:
  "reports_failure (fst (remove_student_from_course course_id student_email st)) \<Longrightarrow> no_save H now st (snd (remove_student_from_course course_id student_email st))"
  using get_attendance_no_save [of H now st]
  by (auto simp: remove_student_from_course_def Let_def split: prod.splits option.splits if_splits)

lemma update_assignment_failure:
  "reports_failure (fst (update_assignment course_id assignment_id kwargs st)) \<Longrightarrow> no_save H now st (snd (update_assignment course_id assignment_id kwargs st))"
  using get_assignments_no_save [of H now st]
  by (auto simp: update_assignment_def Let_def split: prod.splits option.splits if_splits)

lemma delete_assignment_failure:
  "reports_failure (fst (delete_assignment course_id assignment_id st)) \<Longrightarrow> no_save H now st (snd (delete_assignment course_id assignment_id st))"
  using get_assignments_no_save [of H now st]
  by (auto simp: delete_assignment_def Let_def split: prod.splits option.splits if_splits)

lemma submit_assignment_failure:
  "reports_failure (fst (submit_assignment now assignment_id student_email submission_text file_path st)) \<Longrightarrow> no_save H now st (snd (submit_assignment now assignment_id student_email submission_text file_path st))"
  using get_submissions_no_save [of H now st]
  by (auto simp: submit_assignment_def Let_def split: prod.splits option.splits if_splits)

lemma grade_submission_failure:
  "reports_failure (fst (grade_submission now assignment_id student_email grade feedback st)) \<Longrightarrow> no_save H now st (snd (grade_submission now assignment_id student_email grade feedback st))"
  using get_submissions_no_save [of H now st]
  by (auto simp: grade_submission_def Let_def split: prod.splits option.splits if_splits)

lemma submit_project_failure:
  "reports_failure (fst (submit_project now project_id student_email submission_text file_path group_members st)) \<Longrightarrow> no_save H now st (snd (submit_project now project_id student_email submission_text file_path group_members st))"
  using get_submissions_no_save [of H now st]
  by (auto simp: submit_project_def Let_def split: prod.splits option.splits if_splits)

lemma verify_certificate_failure:
  "reports_failure (fst (verify_certificate now student_email certificate_id st)) \<Longrightarrow> no_save H now st (snd (verify_certificate now student_email certificate_id st))"
  using get_certificates_no_save [of H now st]
  by (auto simp: verify_certificate_def Let_def split: prod.splits option.splits if_splits)

lemma delete_announcement_failure:
  "reports_failure (fst (delete_announcement announcement_id st)) \<Longrightarrow> no_save H now st (snd (delete_announcement announcement_id st))"
  using get_announcements_no_save [of H now st]
  by (auto simp: delete_announcement_def Let_def split: prod.splits option.splits if_splits)

lemma update_subject_failure:
  "reports_failure (fst (update_subject subject_id subject_name semester department st)) \<Longrightarrow> no_save H now st (snd (update_subject subject_id subject_name semester department st))"
  using get_subjects_no_save [of H now st]
  by (auto simp: update_subject_def Let_def split: prod.splits option.splits if_splits)

lemma delete_subject_failure:
  "reports_failure (fst (delete_subject subject_id st)) \<Longrightarrow> no_save H now st (snd (delete_subject subject_id st))"
  using get_subjects_no_save [of H now st]
  by (auto simp: delete_subject_def Let_def split: prod.splits option.splits if_splits)

lemma update_exam_failure:
  "reports_failure (fst (update_exam exam_id exam_name exam_type semester date max_marks st)) \<Longrightarrow> no_save H now st (snd (update_exam exam_id exam_name exam_type semester date max_marks st))"
  using get_exams_no_save [of H now st]
  by (auto simp: update_exam_def Let_def split: prod.splits option.splits if_splits)

lemma delete_exam_failure:
  "reports_failure (fst (delete_exam exam_id st)) \<Longrightarrow> no_save H now st (snd (delete_exam exam_id st))"
  using get_exams_no_save [of H now st]
  by (auto simp: delete_exam_def Let_def split: prod.splits option.splits if_splits)

lemma delete_exam_result_failure:
  "reports_failure (fst (delete_exam_result exam_id student_email subject_id st)) \<Longrightarrow> no_save H now st (snd (delete_exam_result exam_id student_email subject_id st))"
  using get_exam_results_no_save [of H now st]
  by (auto simp: delete_exam_result_def Let_def split: prod.splits option.splits if_splits)

lemma delete_exam_results_failure:
  "reports_failure (fst (delete_exam_results exam_id st)) \<Longrightarrow> no_save H now st (snd (delete_exam_results exam_id st))"
  using get_exam_results_no_save [of H now st]
  by (auto simp: delete_exam_results_def Let_def split: prod.splits option.splits if_splits)

lemma add_department_failure:
  "reports_failure (fst (add_department now dept_id dept_name hod_email description st)) \<Longrightarrow> no_save H now st (snd (add_department now dept_id dept_name hod_email description st))"
  using get_departments_no_save [of H now st]
  by (auto simp: add_department_def Let_def split: prod.splits option.splits if_splits)

lemma update_department_failure:
  "reports_failure (fst (update_department now dept_id dept_name hod_email description st)) \<Longrightarrow> no_save H now st (snd (update_department now dept_id dept_name hod_email description st))"
  using get_departments_no_save [of H now st]
  by (auto simp: update_department_def Let_def split: prod.splits option.splits if_splits)

lemma delete_department_failure:
  "reports_failure (fst (delete_department now dept_id st))
     \<Longrightarrow> no_save H now st (snd (delete_department now dept_id st))"
  using get_departments_no_save [of H now st]
    no_save_trans [OF get_departments_no_save get_courses_no_save, of H now st]
  by (auto simp: delete_department_def Let_def split: prod.splits option.splits if_splits)

lemma mark_attendance_succeeds: "\<not> reports_failure (fst (mark_attendance now course_id date student_email status st))"
  by (simp add: mark_attendance_def Let_def split: prod.splits)

lemma create_assignment_succeeds: "\<not> reports_failure (fst (create_assignment now course_id title description due_date max_points st))"
  by (simp add: create_assignment_def Let_def split: prod.splits)

lemma create_project_succeeds: "\<not> reports_failure (fst (create_project now course_id title description due_date max_points group_project st))"
  by (simp add: create_project_def Let_def split: prod.splits)

lemma submit_certificate_succeeds: "\<not> reports_failure (fst (submit_certificate now student_email title issuing_organization issue_date file_path st))"
  by (simp add: submit_certificate_def Let_def split: prod.splits)

lemma create_announcement_succeeds: "\<not> reports_failure (fst (create_announcement now title content author_email target_roles target_departments target_emails st))"
  by (simp add: create_announcement_def Let_def split: prod.splits)

lemma add_subject_succeeds: "\<not> reports_failure (fst (add_subject now subject_name semester department st))"
  by (simp add: add_subject_def Let_def split: prod.splits)

lemma add_exam_succeeds: "\<not> reports_failure (fst (add_exam now exam_name exam_type semester date max_marks st))"
  by (simp add: add_exam_def Let_def split: prod.splits)

lemma add_exam_result_succeeds: "\<not> reports_failure (fst (add_exam_result now exam_id student_email subject_id marks remarks st))"
  by (simp add: add_exam_result_def Let_def split: prod.splits)

lemma run_failure_no_save:
  "reports_failure (fst (run H now c st)) \<Longrightarrow> no_save H now st (snd (run H now c st))"
  by (cases c)
     (simp_all add: create_user_failure update_user_failure delete_user_failure
        add_course_failure update_course_failure delete_course_failure
        remove_student_from_course_failure update_assignment_failure
        delete_assignment_failure submit_assignment_failure grade_submission_failure
        submit_project_failure verify_certificate_failure delete_announcement_failure
        update_subject_failure delete_subject_failure update_exam_failure delete_exam_failure
        delete_exam_result_failure delete_exam_results_failure add_department_failure
        update_department_failure delete_department_failure mark_attendance_succeeds
        create_assignment_succeeds create_project_succeeds submit_certificate_succeeds
        create_announcement_succeeds add_subject_succeeds add_exam_succeeds
        add_exam_result_succeeds)

lemma untouched_load_fst:
  "untouched dflt a b \<Longrightarrow> fst (load_data dflt b) = fst (load_data dflt a)"
  by (auto simp: untouched_def load_data_def)

lemma no_save_contents: "no_save H now st st' \<Longrightarrow> contents H now st' = contents H now st"
  unfolding no_save_def contents_def
  by (simp add: loaded untouched_load_fst)

text \<open>
  C10: a call of any mutating operation that reports failure has performed no save:
  every file is as before, or was missing and was created by the loader with its
  default content. So every document that was persisted before the call is exactly as
  it was, and every loader returns what it returned before.
\<close>

theorem failure_atomicity:
  "reports_failure (fst (run H now c st)) \<Longrightarrow>
     no_save H now st (snd (run H now c st)) \<and>
     documents_kept st (snd (run H now c st)) \<and>
     contents H now (snd (run H now c st)) = contents H now st"
  using run_failure_no_save [of H now c st]
  by (simp add: no_save_documents_kept no_save_contents)

theorem failure_atomicity_witness:
  "reports_failure (fst (run rev clock0 (DeleteCourse ''CS101'') fresh)) \<and>
   no_save rev clock0 fresh (snd (run rev clock0 (DeleteCourse ''CS101'') fresh)) \<and>
   documents_kept fresh (snd (run rev clock0 (DeleteCourse ''CS101'') fresh)) \<and>
   contents rev clock0 (snd (run rev clock0 (DeleteCourse ''CS101'') fresh))
     = contents rev clock0 fresh"
proof -
  have failed: "reports_failure (fst (run rev clock0 (DeleteCourse ''CS101'') fresh))"
    by (simp add: delete_course_def get_courses_def load_data_def has_key_def fresh_def)
  from failure_atomicity [OF failed] failed show ?thesis by simp
qed

lemma get_or_update:
  "get_or (AList.update k v d) k' dflt = (if k' = k then v else get_or d k' dflt)"
  by (simp add: get_or_def update_conv')

lemma get_or_absent: "\<not> has_key d k \<Longrightarrow> get_or d k dflt = dflt"
  by (simp add: get_or_def has_key_def)

lemma already_submitted_count:
  "already_submitted entries e \<longleftrightarrow> 0 < length (filter (\<lambda>s. s_student_email s = e) entries)"
  by (auto simp: already_submitted_def list_ex_iff filter_empty_conv)

lemma stored_entries:
  "fst (get_assignment_submissions a st) = get_or (fst (get_submissions st)) a []"
  by (simp add: get_assignment_submissions_def split: prod.splits)

lemma has_submission_iff:
  "has_submission a e st \<longleftrightarrow> already_submitted (get_or (fst (get_submissions st)) a []) e"
  by (simp add: has_submission_def submissions_by_def stored_entries already_submitted_count)

lemma get_submissions_saved [simp]:
  "fst (get_submissions (st\<lparr>submissions_file := Some doc\<rparr>)) = doc"
  by (simp add: get_submissions_fst load_data_fst)

lemma submissions_by_loaded:
  "submissions_by a e st
     = length (filter (\<lambda>s. s_student_email s = e) (get_or (fst (get_submissions st)) a []))"
  by (simp add: submissions_by_def stored_entries)

lemma get_submissions_again:
  "fst (get_submissions (snd (get_submissions st))) = fst (get_submissions st)"
  by (simp add: get_submissions_snd)

lemma submit_assignment_conflict:
  assumes "has_submission a e st"
  shows "submit_assignment now a e txt fp st
           = (Tuple2 False ''You have already submitted this assignment'',
              snd (get_submissions st))"
proof -
  have "has_key (fst (get_submissions st)) a"
    using assms by (auto simp: has_submission_iff already_submitted_def get_or_def
        has_key_def split: option.splits)
  with assms show ?thesis
    by (simp add: submit_assignment_def has_submission_iff case_prod_beta Let_def)
qed

lemma submit_project_conflict:
  assumes "has_submission a e st"
  shows "submit_project now a e txt fp gm st
           = (Tuple2 False ''You have already submitted this project'',
              snd (get_submissions st))"
proof -
  have "has_key (fst (get_submissions st)) a"
    using assms by (auto simp: has_submission_iff already_submitted_def get_or_def
        has_key_def split: option.splits)
  with assms show ?thesis
    by (simp add: submit_project_def has_submission_iff case_prod_beta Let_def)
qed

lemma submit_assignment_new:
  assumes "\<not> has_submission a e st"
  shows "submit_assignment now a e txt fp st
           = (Tuple2 True ''Assignment submitted successfully'',
              st\<lparr>submissions_file :=
                   Some (AList.update a
                           (get_or (fst (get_submissions st)) a []
                            @ [\<lparr>s_student_email = e, s_submission_text = txt,
                                s_file_path = fp, s_group_members = None,
                                s_submitted_at = isoformat now, s_grade = None,
                                s_feedback = None, s_graded_at = None\<rparr>])
                           (fst (get_submissions st)))\<rparr>)"
  using assms
  by (cases "has_key (fst (get_submissions st)) a")
     (simp_all add: submit_assignment_def has_submission_iff get_or_update get_or_absent
        already_submitted_def save_data_def get_submissions_snd Let_def case_prod_beta)

lemma submit_project_new:
  assumes "\<not> has_submission a e st"
  shows "submit_project now a e txt fp gm st
           = (Tuple2 True ''Project submitted successfully'',
              st\<lparr>submissions_file :=
                   Some (AList.update a
                           (get_or (fst (get_submissions st)) a []
                            @ [\<lparr>s_student_email = e, s_submission_text = txt,
                                s_file_path = fp, s_group_members = Some gm,
                                s_submitted_at = isoformat now, s_grade = None,
                                s_feedback = None, s_graded_at = None\<rparr>])
                           (fst (get_submissions st)))\<rparr>)"
  using assms
  by (cases "has_key (fst (get_submissions st)) a")
     (simp_all add: submit_project_def has_submission_iff get_or_update get_or_absent
        already_submitted_def save_data_def get_submissions_snd Let_def case_prod_beta)

text \<open>What one more entry of the student does to the counts.\<close>

lemma count_after_append:
  assumes "s_student_email entry = e" and "\<not> has_submission a e st"
  shows "submissions_by a' e'
           (st\<lparr>submissions_file :=
                 Some (AList.update a (get_or (fst (get_submissions st)) a [] @ [entry])
                         (fst (get_submissions st)))\<rparr>)
         = (if a' = a \<and> e' = e then 1 else submissions_by a' e' st)"
  using assms
  by (auto simp: submissions_by_loaded get_or_update has_submission_def)


lemma count_after_load:
  "submissions_by a e (snd (get_submissions st)) = submissions_by a e st"
  by (simp add: submissions_by_loaded get_submissions_again)

text \<open>
  C1: where the store already holds an entry for the pair, \<^verbatim>\<open>submit_assignment\<close> and
  \<^verbatim>\<open>submit_project\<close> return failure with their conflict message and save nothing, so
  the stored lists are unchanged; otherwise they succeed and add exactly one entry for
  the pair and none for any other pair. Hence a store with at most one entry per pair
  has, after either call, exactly one entry for the submitted pair and still at most
  one for every pair.
\<close>

theorem submission_uniqueness:
  "(case submit_assignment now assignment_id student_email submission_text file_path st of
      (r, st') \<Rightarrow>
        (has_submission assignment_id student_email st \<longrightarrow>
           r = Tuple2 False ''You have already submitted this assignment'' \<and>
           fst (get_submissions st') = fst (get_submissions st) \<and>
           no_save H now st st') \<and>
        (\<not> has_submission assignment_id student_email st \<longrightarrow>
           r = Tuple2 True ''Assignment submitted successfully'' \<and>
           submissions_by assignment_id student_email st' = 1 \<and>
           (\<forall>a e. (a, e) \<noteq> (assignment_id, student_email) \<longrightarrow>
                  submissions_by a e st' = submissions_by a e st)) \<and>
        ((\<forall>a e. submissions_by a e st \<le> 1) \<longrightarrow>
           submissions_by assignment_id student_email st' = 1 \<and>
           (\<forall>a e. submissions_by a e st' \<le> 1))) \<and>
   (case submit_project now assignment_id student_email submission_text file_path
           group_members st of
      (r, st') \<Rightarrow>
        (has_submission assignment_id student_email st \<longrightarrow>
           r = Tuple2 False ''You have already submitted this project'' \<and>
           fst (get_submissions st') = fst (get_submissions st) \<and>
           no_save H now st st') \<and>
        (\<not> has_submission assignment_id student_email st \<longrightarrow>
           r = Tuple2 True ''Project submitted successfully'' \<and>
           submissions_by assignment_id student_email st' = 1 \<and>
           (\<forall>a e. (a, e) \<noteq> (assignment_id, student_email) \<longrightarrow>
                  submissions_by a e st' = submissions_by a e st)) \<and>
        ((\<forall>a e. submissions_by a e st \<le> 1) \<longrightarrow>
           submissions_by assignment_id student_email st' = 1 \<and>
           (\<forall>a e. submissions_by a e st' \<le> 1)))"
proof (cases "has_submission assignment_id student_email st")
  case True
  have one: "(\<forall>a e. submissions_by a e st \<le> 1) \<longrightarrow>
               submissions_by assignment_id student_email st = 1"
  proof
    assume "\<forall>a e. submissions_by a e st \<le> 1"
    then have "submissions_by assignment_id student_email st \<le> 1" by blast
    with True show "submissions_by assignment_id student_email st = 1"
      by (simp add: has_submission_def)
  qed
  show ?thesis
    using True one get_submissions_no_save [of H now st]
    by (simp add: submit_assignment_conflict submit_project_conflict
          get_submissions_again count_after_load)
next
  case False
  show ?thesis
    using False
    by (simp add: submit_assignment_new submit_project_new count_after_append)
qed


lemma campus_submissions:
  "fst (get_submissions campus)
     = [(''CS101_1'', [\<lparr>s_student_email = ''student@college.edu'',
                         s_submission_text = ''answer'', s_file_path = None,
                         s_group_members = None,
                         s_submitted_at = isoformat clock0, s_grade = None,
                         s_feedback = None, s_graded_at = None\<rparr>])]"
  by (simp add: get_submissions_fst load_data_fst campus_def)

theorem submission_uniqueness_witness:
  "has_submission ''CS101_1'' ''student@college.edu'' campus \<and>
   (\<forall>a e. submissions_by a e campus \<le> 1) \<and>
   fst (submit_assignment clock1 ''CS101_1'' ''student@college.edu'' ''again'' None campus)
     = Tuple2 False ''You have already submitted this assignment'' \<and>
   submissions_by ''CS101_1'' ''student@college.edu''
     (snd (submit_assignment clock1 ''CS101_1'' ''student@college.edu'' ''again'' None campus))
     = 1 \<and>
   \<not> has_submission ''CS101_1'' ''other@college.edu'' campus \<and>
   fst (submit_project clock1 ''CS101_1'' ''other@college.edu'' ''mine'' None None campus)
     = Tuple2 True ''Project submitted successfully'' \<and>
   submissions_by ''CS101_1'' ''other@college.edu''
     (snd (submit_project clock1 ''CS101_1'' ''other@college.edu'' ''mine'' None None campus))
     = 1"
proof -
  have has: "has_submission ''CS101_1'' ''student@college.edu'' campus"
    by (simp add: has_submission_def submissions_by_loaded campus_submissions get_or_def)
  have unique: "\<forall>a e. submissions_by a e campus \<le> 1"
    by (simp add: submissions_by_loaded campus_submissions get_or_def)
  have new: "\<not> has_submission ''CS101_1'' ''other@college.edu'' campus"
    by (simp add: has_submission_def submissions_by_loaded campus_submissions get_or_def)
  from has unique
    submission_uniqueness [where now = clock1 and assignment_id = "''CS101_1''"
      and student_email = "''student@college.edu''" and submission_text = "''again''"
      and file_path = None and group_members = None and st = campus and H = rev]
  have first: "fst (submit_assignment clock1 ''CS101_1'' ''student@college.edu'' ''again'' None
                 campus) = Tuple2 False ''You have already submitted this assignment'' \<and>
     submissions_by ''CS101_1'' ''student@college.edu''
       (snd (submit_assignment clock1 ''CS101_1'' ''student@college.edu'' ''again'' None campus))
       = 1"
    by (simp add: case_prod_beta)
  from new
    submission_uniqueness [where now = clock1 and assignment_id = "''CS101_1''"
      and student_email = "''other@college.edu''" and submission_text = "''mine''"
      and file_path = None and group_members = None and st = campus and H = rev]
  have second: "fst (submit_project clock1 ''CS101_1'' ''other@college.edu'' ''mine'' None None
                  campus) = Tuple2 True ''Project submitted successfully'' \<and>
     submissions_by ''CS101_1'' ''other@college.edu''
       (snd (submit_project clock1 ''CS101_1'' ''other@college.edu'' ''mine'' None None campus))
       = 1"
    by (simp add: case_prod_beta)
  from has unique new first second show ?thesis by blast
qed

lemma update_first_None: "update_first test change xs = None \<longleftrightarrow> \<not> list_ex test xs"
  by (induction xs) auto

lemma grade_submission_missing:
  assumes "\<not> has_submission a e st"
  shows "grade_submission now a e g fb st
           = (Tuple2 False (if has_key (fst (get_submissions st)) a
                            then ''Submission not found'' else ''Assignment not found''),
              snd (get_submissions st))"
proof (cases "map_of (fst (get_submissions st)) a")
  case None
  then show ?thesis
    by (simp add: grade_submission_def case_prod_beta has_key_def)
next
  case (Some entries)
  with assms have "\<not> list_ex (\<lambda>s. s_student_email s = e) entries"
    by (simp add: has_submission_iff already_submitted_def get_or_def)
  then have "update_first (\<lambda>s. s_student_email s = e)
               (\<lambda>s. s\<lparr>s_grade := Some g, s_feedback := fb,
                       s_graded_at := Some (isoformat now)\<rparr>) entries = None"
    by (simp add: update_first_None)
  with Some show ?thesis
    by (simp add: grade_submission_def case_prod_beta has_key_def)
qed

text \<open>
  C3 (amended): where the store holds no entry for the pair, \<^verbatim>\<open>grade_submission\<close>
  returns failure, with the message "Submission not found" when the store has a key for
  the assignment id and "Assignment not found" when it has none; it creates no
  submission and saves nothing, so the submissions store is unchanged.
\<close>

theorem grading_needs_a_submission:
  "\<not> has_submission assignment_id student_email st \<Longrightarrow>
     (case grade_submission now assignment_id student_email grade feedback st of
        (r, st') \<Rightarrow>
          r = Tuple2 False (if has_key (fst (get_submissions st)) assignment_id
                            then ''Submission not found'' else ''Assignment not found'') \<and>
          fst (get_submissions st') = fst (get_submissions st) \<and>
          \<not> has_submission assignment_id student_email st' \<and>
          no_save H now st st')"
  using get_submissions_no_save [of H now st]
  by (simp add: grade_submission_missing get_submissions_again has_submission_def
        count_after_load)

theorem grading_needs_a_submission_witness:
  "\<not> has_submission ''CS101_1'' ''other@college.edu'' campus \<and>
   has_key (fst (get_submissions campus)) ''CS101_1'' \<and>
   fst (grade_submission clock1 ''CS101_1'' ''other@college.edu'' 85 None campus)
     = Tuple2 False ''Submission not found'' \<and>
   fst (get_submissions
          (snd (grade_submission clock1 ''CS101_1'' ''other@college.edu'' 85 None campus)))
     = fst (get_submissions campus)"
proof -
  have new: "\<not> has_submission ''CS101_1'' ''other@college.edu'' campus"
    by (simp add: has_submission_def submissions_by_loaded campus_submissions get_or_def)
  have key: "has_key (fst (get_submissions campus)) ''CS101_1''"
    by (simp add: campus_submissions has_key_def)
  from grading_needs_a_submission [OF new, where now = clock1 and grade = 85
      and feedback = None and H = rev] new key
  show ?thesis by (simp add: case_prod_beta)
qed

text \<open>
  C3 as stated fails where the store has no key at all for the assignment id: the
  message is then "Assignment not found".
\<close>

theorem grading_message_counterexample:
  "\<not> has_submission ''CS101_1'' ''student@college.edu'' fresh \<and>
   fst (grade_submission clock1 ''CS101_1'' ''student@college.edu'' 85 None fresh)
     = Tuple2 False ''Assignment not found'' \<and>
   fst (grade_submission clock1 ''CS101_1'' ''student@college.edu'' 85 None fresh)
     \<noteq> Tuple2 False ''Submission not found''"
  by (simp add: has_submission_def submissions_by_def get_assignment_submissions_def
        grade_submission_def get_submissions_def load_data_def get_or_def fresh_def)

lemma matches_nonempty_in: "matches x ts = nonempty_in x ts"
  by (auto simp: matches_def nonempty_in_def truthy_def targets_def split: option.splits)

lemma not_truthy_targets: "\<not> truthy ts \<longleftrightarrow> targets ts = []"
  by (simp add: truthy_def targets_def split: option.splits)

lemma visible_amended: "visible role department email a = amended_visible role department email a"
  by (simp add: visible_def amended_visible_def matches_nonempty_in not_truthy_targets)

text \<open>
  C2 (amended): \<^verbatim>\<open>get_filtered_announcements\<close> returns, in store order, exactly the
  stored announcements that have no target at all, or whose target roles contain the
  supplied non-empty role, or whose target departments contain the supplied non-empty
  department, or whose target emails contain the supplied non-empty email: an OR over
  the three dimensions.
\<close>

theorem filtered_announcements:
  "fst (get_filtered_announcements role department email st)
     = filter (amended_visible role department email) (fst (get_announcements st))"
  by (simp add: get_filtered_announcements_def case_prod_beta visible_amended cong: filter_cong)

theorem filtered_announcements_witness:
  "map an_announcement_id
     (fst (get_filtered_announcements (Some ''teacher'') None None campus)) = [1, 2] \<and>
   map an_announcement_id
     (fst (get_filtered_announcements (Some ''student'') (Some ''Physics'')
             (Some ''student@college.edu'') campus)) = [1]"
proof -
  show ?thesis
    using filtered_announcements [of "Some ''teacher''" None None campus]
      filtered_announcements [of "Some ''student''" "Some ''Physics''"
        "Some ''student@college.edu''" campus]
    by (simp add: get_announcements_fst load_data_fst campus_def amended_visible_def
          nonempty_in_def targets_def)
qed

text \<open>
  C2 as stated fails for a value that is supplied but empty: the role \<^verbatim>\<open>""\<close> is a
  member of the target roles of the announcement, and the announcement is not returned.
\<close>

theorem empty_role_counterexample:
  "claimed_visible (Some []) None None blank_role_notice \<and>
   fst (get_announcements (fresh\<lparr>announcements_file := Some [blank_role_notice]\<rparr>))
     = [blank_role_notice] \<and>
   fst (get_filtered_announcements (Some []) None None
          (fresh\<lparr>announcements_file := Some [blank_role_notice]\<rparr>)) = []"
  by (simp add: claimed_visible_def supplied_in_def targets_def blank_role_notice_def
        get_filtered_announcements_def get_announcements_def load_data_def visible_def
        matches_def truthy_def)

text \<open>
  C7: \<^verbatim>\<open>authenticate\<close> returns the stored record exactly when the users store has an
  entry under that very email whose stored digest is the hash of the supplied password;
  in every other case it returns \<^verbatim>\<open>None\<close>. It has no other outcome, and it saves nothing.
\<close>

theorem authenticate_iff:
  "(fst (authenticate H now email password st) = Some u \<longleftrightarrow>
      map_of (fst (get_users H now st)) email = Some u \<and> u_password u = H password) \<and>
   (fst (authenticate H now email password st) = None \<longleftrightarrow>
      \<not> (\<exists>v. map_of (fst (get_users H now st)) email = Some v \<and> u_password v = H password)) \<and>
   no_save H now st (snd (authenticate H now email password st))"
  using get_users_no_save [of H now st]
  by (auto simp: authenticate_def case_prod_beta split: option.splits)

theorem authenticate_iff_witness:
  "map_of (fst (get_users rev clock1 campus)) ''admin@college.edu''
     = Some \<lparr>u_password = rev ''admin123'', u_role = ''admin'',
             u_created_at = JStr (isoformat clock0), u_attrs = [(''name'', JStr ''Admin User'')]\<rparr> \<and>
   fst (authenticate rev clock1 ''admin@college.edu'' ''admin123'' campus)
     = Some \<lparr>u_password = rev ''admin123'', u_role = ''admin'',
             u_created_at = JStr (isoformat clock0), u_attrs = [(''name'', JStr ''Admin User'')]\<rparr> \<and>
   fst (authenticate rev clock1 ''admin@college.edu'' ''admin124'' campus) = None \<and>
   fst (authenticate rev clock1 ''Admin@college.edu'' ''admin123'' campus) = None"
proof -
  have stored: "map_of (fst (get_users rev clock1 campus)) ''admin@college.edu''
     = Some \<lparr>u_password = rev ''admin123'', u_role = ''admin'',
             u_created_at = JStr (isoformat clock0), u_attrs = [(''name'', JStr ''Admin User'')]\<rparr>"
    by (simp add: get_users_fst load_data_fst campus_def default_users_def)
  have other: "map_of (fst (get_users rev clock1 campus)) ''Admin@college.edu'' = None"
    by (simp add: get_users_fst load_data_fst campus_def default_users_def)
  show ?thesis
    using stored other
      authenticate_iff [of rev clock1 "''admin@college.edu''" "''admin123''" campus
        "\<lparr>u_password = rev ''admin123'', u_role = ''admin'',
          u_created_at = JStr (isoformat clock0), u_attrs = [(''name'', JStr ''Admin User'')]\<rparr>"]
      authenticate_iff [of rev clock1 "''admin@college.edu''" "''admin124''" campus]
      authenticate_iff [of rev clock1 "''Admin@college.edu''" "''admin123''" campus]
    by simp
qed

lemma pair_results:
  "shape_of (fst (create_user H now email password role kwargs st)) = Pair"
  "shape_of (fst (update_user H now email ukw st)) = Pair"
  "shape_of (fst (delete_user H now email st)) = Pair"
  "shape_of (fst (add_course now course_id course_name department teacher_email
                    description credits st)) = Pair"
  "shape_of (fst (update_course course_id ckw st)) = Pair"
  "shape_of (fst (delete_course course_id st)) = Pair"
  "shape_of (fst (mark_attendance now course_id date student_email status st)) = Pair"
  "shape_of (fst (remove_student_from_course course_id student_email st)) = Pair"
  "shape_of (fst (update_assignment course_id assignment_id akw st)) = Pair"
  "shape_of (fst (delete_assignment course_id assignment_id st)) = Pair"
  "shape_of (fst (submit_assignment now assignment_id student_email submission_text
                    file_path st)) = Pair"
  "shape_of (fst (grade_submission now assignment_id student_email grade feedback st)) = Pair"
  "shape_of (fst (submit_project now project_id student_email submission_text file_path
                    group_members st)) = Pair"
  "shape_of (fst (submit_certificate now student_email title issuing_organization
                    issue_date file_path st)) = Pair"
  "shape_of (fst (verify_certificate now student_email certificate_id st)) = Pair"
  "shape_of (fst (create_announcement now title content author_email target_roles
                    target_departments target_emails st)) = Pair"
  "shape_of (fst (delete_announcement announcement_id st)) = Pair"
  "shape_of (fst (add_department now dept_id dept_name hod_email description st)) = Pair"
  "shape_of (fst (update_department now dept_id dept_name hod_email description st)) = Pair"
  "shape_of (fst (delete_department now dept_id st)) = Pair"
  by (simp_all add: create_user_def update_user_def delete_user_def add_course_def
        update_course_def delete_course_def mark_attendance_def
        remove_student_from_course_def update_assignment_def
        delete_assignment_def submit_assignment_def grade_submission_def
        submit_project_def submit_certificate_def verify_certificate_def
        create_announcement_def delete_announcement_def add_department_def
        update_department_def delete_department_def case_prod_beta Let_def
        split: option.splits)

lemma other_results:
  "shape_of (fst (create_assignment now course_id title description due_date max_points st))
     = Triple"
  "shape_of (fst (create_project now course_id title description due_date max_points
                    group_project st)) = Triple"
  "shape_of (fst (add_subject now subject_name semester sdepartment st)) = BareId"
  "shape_of (fst (add_exam now exam_name exam_type semester date max_marks st)) = BareId"
  "shape_of (fst (update_subject subject_id osubject_name osemester sdepartment st)) = BareBool"
  "shape_of (fst (delete_subject subject_id st)) = BareBool"
  "shape_of (fst (update_exam exam_id oexam_name oexam_type osemester odate omax_marks st))
     = BareBool"
  "shape_of (fst (delete_exam exam_id st)) = BareBool"
  "shape_of (fst (add_exam_result now exam_id student_email subject_id marks remarks st))
     = BareBool"
  "shape_of (fst (delete_exam_result exam_id student_email subject_id st)) = BareBool"
  "shape_of (fst (delete_exam_results exam_id st)) = BareBool"
  by (simp_all add: create_assignment_def create_project_def add_subject_def add_exam_def
        update_subject_def delete_subject_def update_exam_def delete_exam_def
        add_exam_result_def delete_exam_result_def delete_exam_results_def case_prod_beta
        Let_def split: option.splits)

lemma run_shape: "shape_of (fst (run H now c st)) = returned_shape c"
  by (cases c) (simp_all add: returned_shape_def pair_results other_results)

text \<open>The two creating functions: what they return and what they store.\<close>

lemma create_assignment_stored:
  "create_assignment now course_id title description due_date max_points st
     = (Tuple3 True ''Assignment created successfully''
          (course_id @ ''_''
           @ str_nat (length (get_or (fst (get_assignments st)) course_id []) + 1)),
        st\<lparr>assignments_file :=
             Some (AList.update course_id
                     (get_or (fst (get_assignments st)) course_id []
                      @ [\<lparr>a_assignment_id =
                            course_id @ ''_''
                            @ str_nat (length (get_or (fst (get_assignments st)) course_id [])
                                       + 1),
                          a_title = title, a_description = description,
                          a_due_date = due_date, a_max_points = max_points,
                          a_created_at = isoformat now\<rparr>])
                     (fst (get_assignments st)))\<rparr>)"
  by (cases "has_key (fst (get_assignments st)) course_id")
     (simp_all add: create_assignment_def case_prod_beta Let_def save_data_def
        get_or_update get_or_absent get_assignments_snd)

lemma create_project_stored:
  "create_project now course_id title description due_date max_points group_project st
     = (Tuple3 True ''Project created successfully''
          (course_id @ ''_project_''
           @ str_nat (length (get_or (fst (get_projects st)) course_id []) + 1)),
        st\<lparr>projects_file :=
             Some (AList.update course_id
                     (get_or (fst (get_projects st)) course_id []
                      @ [\<lparr>p_project_id =
                            course_id @ ''_project_''
                            @ str_nat (length (get_or (fst (get_projects st)) course_id [])
                                       + 1),
                          p_title = title, p_description = description,
                          p_due_date = due_date, p_max_points = max_points,
                          p_group_project = group_project,
                          p_created_at = isoformat now\<rparr>])
                     (fst (get_projects st)))\<rparr>)"
  by (cases "has_key (fst (get_projects st)) course_id")
     (simp_all add: create_project_def case_prod_beta Let_def save_data_def
        get_or_update get_or_absent get_projects_snd)

lemma assignments_saved [simp]:
  "fst (get_assignments (st\<lparr>assignments_file := Some doc\<rparr>)) = doc"
  by (simp add: get_assignments_fst load_data_fst)

lemma projects_saved [simp]:
  "fst (get_projects (st\<lparr>projects_file := Some doc\<rparr>)) = doc"
  by (simp add: get_projects_fst load_data_fst)

lemma exams_written [simp]: "fst (get_exams (st\<lparr>exams_file := Some doc\<rparr>)) = doc"
  by (simp add: get_exams_fst load_data_fst)

lemma subjects_written [simp]:
  "fst (get_subjects (st\<lparr>subjects_file := Some doc\<rparr>)) = doc"
  by (simp add: get_subjects_fst load_data_fst)

lemma created_assignment:
  "case create_assignment now course_id title description due_date max_points st of
     (r, st') \<Rightarrow>
       r = Tuple3 True ''Assignment created successfully''
             (course_id @ ''_''
              @ str_nat (length (get_or (fst (get_assignments st)) course_id []) + 1)) \<and>
       get_or (fst (get_assignments st')) course_id []
         = get_or (fst (get_assignments st)) course_id []
           @ [\<lparr>a_assignment_id =
                 course_id @ ''_''
                 @ str_nat (length (get_or (fst (get_assignments st)) course_id []) + 1),
               a_title = title, a_description = description, a_due_date = due_date,
               a_max_points = max_points, a_created_at = isoformat now\<rparr>]"
  by (simp add: create_assignment_stored get_or_update)

lemma created_project:
  "case create_project now course_id title description due_date max_points group_project st of
     (r, st') \<Rightarrow>
       r = Tuple3 True ''Project created successfully''
             (course_id @ ''_project_''
              @ str_nat (length (get_or (fst (get_projects st)) course_id []) + 1)) \<and>
       get_or (fst (get_projects st')) course_id []
         = get_or (fst (get_projects st)) course_id []
           @ [\<lparr>p_project_id =
                 course_id @ ''_project_''
                 @ str_nat (length (get_or (fst (get_projects st)) course_id []) + 1),
               p_title = title, p_description = description, p_due_date = due_date,
               p_max_points = max_points, p_group_project = group_project,
               p_created_at = isoformat now\<rparr>]"
  by (simp add: create_project_stored get_or_update)

lemma added_exam:
  "case add_exam now exam_name exam_type semester date max_marks st of
     (r, st') \<Rightarrow>
       r = PyStr (''exam_'' @ str_nat (length (fst (get_exams st)) + 1) @ ''_'' @ stamp now) \<and>
       map_of (fst (get_exams st'))
           (''exam_'' @ str_nat (length (fst (get_exams st)) + 1) @ ''_'' @ stamp now)
         = Some \<lparr>e_exam_id =
                   ''exam_'' @ str_nat (length (fst (get_exams st)) + 1) @ ''_'' @ stamp now,
                 e_exam_name = exam_name, e_exam_type = exam_type, e_semester = semester,
                 e_date = date, e_max_marks = max_marks, e_created_at = spaced now\<rparr>"
  by (simp add: add_exam_def case_prod_beta Let_def save_data_def get_exams_snd update_conv')

lemma added_subject:
  "case add_subject now subject_name semester subject_department st of
     (r, st') \<Rightarrow>
       r = PyStr (''subject_'' @ str_nat (length (fst (get_subjects st)) + 1) @ ''_''
                  @ stamp now) \<and>
       map_of (fst (get_subjects st'))
           (''subject_'' @ str_nat (length (fst (get_subjects st)) + 1) @ ''_'' @ stamp now)
         = Some \<lparr>sb_subject_id =
                   ''subject_'' @ str_nat (length (fst (get_subjects st)) + 1) @ ''_''
                   @ stamp now,
                 sb_subject_name = subject_name, sb_semester = semester,
                 sb_department = subject_department\<rparr>"
  by (simp add: add_subject_def case_prod_beta Let_def save_data_def get_subjects_snd
        update_conv')

text \<open>
  C5 (amended): every mutating call of the user, course, attendance, assignment,
  submission, certificate, announcement and department functions returns the pair
  (success, message); \<^verbatim>\<open>create_assignment\<close> and \<^verbatim>\<open>create_project\<close> return the triple
  (True, message, id), where id is the generated id of the entry they append. The exam
  and subject functions do not return a tuple: \<^verbatim>\<open>add_exam\<close> and \<^verbatim>\<open>add_subject\<close> return
  the bare generated id, the key under which the new entry is stored, and
  \<^verbatim>\<open>update_exam\<close>, \<^verbatim>\<open>delete_exam\<close>, \<^verbatim>\<open>update_subject\<close>, \<^verbatim>\<open>delete_subject\<close>,
  \<^verbatim>\<open>add_exam_result\<close>, \<^verbatim>\<open>delete_exam_result\<close> and \<^verbatim>\<open>delete_exam_results\<close> return a
  bare boolean.
\<close>

theorem result_shapes:
  "shape_of (fst (run H now c st)) = returned_shape c \<and>
   (case create_assignment now course_id title description due_date max_points st of
      (r, st') \<Rightarrow>
        r = Tuple3 True ''Assignment created successfully''
              (course_id @ ''_''
               @ str_nat (length (get_or (fst (get_assignments st)) course_id []) + 1)) \<and>
        get_or (fst (get_assignments st')) course_id []
          = get_or (fst (get_assignments st)) course_id []
            @ [\<lparr>a_assignment_id =
                  course_id @ ''_''
                  @ str_nat (length (get_or (fst (get_assignments st)) course_id []) + 1),
                a_title = title, a_description = description, a_due_date = due_date,
                a_max_points = max_points, a_created_at = isoformat now\<rparr>]) \<and>
   (case create_project now course_id title description due_date max_points group_project st of
      (r, st') \<Rightarrow>
        r = Tuple3 True ''Project created successfully''
              (course_id @ ''_project_''
               @ str_nat (length (get_or (fst (get_projects st)) course_id []) + 1)) \<and>
        get_or (fst (get_projects st')) course_id []
          = get_or (fst (get_projects st)) course_id []
            @ [\<lparr>p_project_id =
                  course_id @ ''_project_''
                  @ str_nat (length (get_or (fst (get_projects st)) course_id []) + 1),
                p_title = title, p_description = description, p_due_date = due_date,
                p_max_points = max_points, p_group_project = group_project,
                p_created_at = isoformat now\<rparr>]) \<and>
   (case add_exam now exam_name exam_type semester date max_marks st of
      (r, st') \<Rightarrow>
        r = PyStr (''exam_'' @ str_nat (length (fst (get_exams st)) + 1) @ ''_'' @ stamp now) \<and>
        map_of (fst (get_exams st'))
            (''exam_'' @ str_nat (length (fst (get_exams st)) + 1) @ ''_'' @ stamp now)
          = Some \<lparr>e_exam_id =
                    ''exam_'' @ str_nat (length (fst (get_exams st)) + 1) @ ''_'' @ stamp now,
                  e_exam_name = exam_name, e_exam_type = exam_type, e_semester = semester,
                  e_date = date, e_max_marks = max_marks, e_created_at = spaced now\<rparr>) \<and>
   (case add_subject now subject_name semester subject_department st of
      (r, st') \<Rightarrow>
        r = PyStr (''subject_'' @ str_nat (length (fst (get_subjects st)) + 1) @ ''_''
                   @ stamp now) \<and>
        map_of (fst (get_subjects st'))
            (''subject_'' @ str_nat (length (fst (get_subjects st)) + 1) @ ''_'' @ stamp now)
          = Some \<lparr>sb_subject_id =
                    ''subject_'' @ str_nat (length (fst (get_subjects st)) + 1) @ ''_''
                    @ stamp now,
                  sb_subject_name = subject_name, sb_semester = semester,
                  sb_department = subject_department\<rparr>)"
  by (intro conjI run_shape created_assignment created_project added_exam added_subject)

theorem result_shapes_witness:
  "shape_of (fst (run rev clock1 (DeleteCourse ''CS101'') campus)) = Pair \<and>
   shape_of (fst (run rev clock1 (DeleteExam ''exam_3'') campus)) = BareBool \<and>
   fst (create_assignment clock1 ''CS101'' ''Trees'' [] ''2024-03-01'' 100 campus)
     = Tuple3 True ''Assignment created successfully'' ''CS101_2'' \<and>
   map a_assignment_id
     (get_or (fst (get_assignments
                (snd (create_assignment clock1 ''CS101'' ''Trees'' [] ''2024-03-01'' 100
                        campus)))) ''CS101'' [])
     = [''CS101_1'', ''CS101_2''] \<and>
   fst (create_project clock1 ''CS101'' ''Trees'' [] ''2024-03-01'' 100 False campus)
     = Tuple3 True ''Project created successfully'' ''CS101_project_1'' \<and>
   fst (add_exam clock1 ''Quiz'' ''Mid Sem 2'' 1 ''2024-04-01'' 50 campus)
     = PyStr ''exam_3_20240111103000'' \<and>
   map_option e_exam_name
     (map_of (fst (get_exams (snd (add_exam clock1 ''Quiz'' ''Mid Sem 2'' 1 ''2024-04-01'' 50
                                     campus))))
        ''exam_3_20240111103000'') = Some ''Quiz'' \<and>
   fst (add_subject clock1 ''Algebra'' 1 None campus) = PyStr ''subject_1_20240111103000''"
proof -
  have stored: "get_or (fst (get_assignments campus)) ''CS101'' []
      = [\<lparr>a_assignment_id = ''CS101_1'', a_title = ''Lists'', a_description = [],
           a_due_date = ''2024-02-01'', a_max_points = 100,
           a_created_at = isoformat clock0\<rparr>]"
    "get_or (fst (get_projects campus)) ''CS101'' [] = []"
    "length (fst (get_exams campus)) = 2"
    "length (fst (get_subjects campus)) = 0"
    by (simp_all add: get_assignments_fst get_projects_fst get_exams_fst get_subjects_fst
          load_data_fst campus_def get_or_def)
  have digits: "str_nat (Suc 0) = ''1''" "str_nat (Suc (Suc 0)) = ''2''" "str_nat 3 = ''3''"
    by (simp_all add: str_nat.simps digit_def)
  show ?thesis
    using result_shapes [where H = rev and now = clock1 and c = "DeleteCourse ''CS101''"
        and st = campus and course_id = "''CS101''" and title = "''Trees''"
        and description = "[]" and due_date = "''2024-03-01''" and max_points = 100
        and group_project = False and exam_name = "''Quiz''" and exam_type = "''Mid Sem 2''"
        and semester = 1 and date = "''2024-04-01''" and max_marks = 50
        and subject_name = "''Algebra''" and subject_department = None]
      result_shapes [where H = rev and now = clock1 and c = "DeleteExam ''exam_3''"
        and st = campus and course_id = "''CS101''" and title = "''Trees''"
        and description = "[]" and due_date = "''2024-03-01''" and max_points = 100
        and group_project = False and exam_name = "''Quiz''" and exam_type = "''Mid Sem 2''"
        and semester = 1 and date = "''2024-04-01''" and max_marks = 50
        and subject_name = "''Algebra''" and subject_department = None]
    by (simp add: case_prod_beta stored digits returned_shape_def clock1_def)
qed

text \<open>
  C5 as stated fails on the exam functions: \<^verbatim>\<open>add_exam\<close> returns the bare id and
  \<^verbatim>\<open>delete_exam\<close> a bare boolean, neither a (success, message) tuple.
\<close>

theorem exam_result_shape_counterexample:
  "fst (add_exam clock0 ''Midterm'' ''Mid Sem 1'' 1 ''2024-03-01'' 100 fresh)
     = PyStr ''exam_1_20240110090000'' \<and>
   \<not> status_pair (fst (add_exam clock0 ''Midterm'' ''Mid Sem 1'' 1 ''2024-03-01'' 100 fresh)) \<and>
   fst (delete_exam ''exam_1_20240110090000'' campus) = PyBool True \<and>
   \<not> status_pair (fst (delete_exam ''exam_1_20240110090000'' campus))"
  by (simp add: add_exam_def delete_exam_def delete_exam_results_def get_exams_def
        get_exam_results_def load_data_def save_data_def has_key_def fresh_def campus_def
        clock0_def str_nat.simps digit_def case_prod_beta Let_def)

lemma in_use_iff:
  "in_use dept_name (fst (get_courses st)) \<longleftrightarrow> some_course_in dept_name st"
  by (force simp: in_use_def some_course_in_def list_ex_iff)

lemma courses_after_departments:
  "fst (get_courses (snd (get_departments now st))) = fst (get_courses st)"
  by (simp add: get_departments_snd get_courses_fst)

lemma some_course_after_departments:
  "some_course_in dept_name (snd (get_departments now st)) = some_course_in dept_name st"
  by (simp add: some_course_in_def courses_after_departments)

lemma departments_after_courses:
  "fst (get_departments now' (snd (get_courses st))) = fst (get_departments now' st)"
  by (simp add: get_courses_snd get_departments_fst)

lemma departments_after_departments:
  "fst (get_departments now' (snd (get_departments now st))) = fst (get_departments now st)"
  by (simp add: get_departments_snd) (simp add: get_departments_fst load_data_fst)

lemma departments_saved:
  "fst (get_departments now' (save_departments doc st)) = doc"
  by (simp add: save_departments_def save_data_def get_departments_fst load_data_fst)

lemma courses_saved_departments:
  "fst (get_courses (save_departments doc st)) = fst (get_courses st)"
  by (simp add: save_departments_def get_courses_fst)

lemma courses_after_courses:
  "fst (get_courses (snd (get_courses st))) = fst (get_courses st)"
  by (simp add: get_courses_snd) (simp add: get_courses_fst load_data_fst)

lemma delete_department_blocked:
  assumes "map_of (fst (get_departments now st)) dept_id = Some d"
    and "some_course_in (d_name d) st"
  shows "delete_department now dept_id st
           = (Tuple2 False ''Cannot delete department that is in use by courses'',
              snd (get_courses (snd (get_departments now st))))"
  using assms
  by (simp add: delete_department_def case_prod_beta in_use_iff
        some_course_after_departments)

lemma delete_department_free:
  assumes "map_of (fst (get_departments now st)) dept_id = Some d"
    and "\<not> some_course_in (d_name d) st"
  shows "delete_department now dept_id st
           = (Tuple2 True ''Department deleted successfully'',
              save_departments (AList.delete dept_id (fst (get_departments now st)))
                (snd (get_courses (snd (get_departments now st)))))"
  using assms
  by (simp add: delete_department_def case_prod_beta in_use_iff
        some_course_after_departments)

text \<open>
  C4: for a department that exists, \<^verbatim>\<open>delete_department\<close> fails and saves nothing, so
  the departments store is unchanged, whenever some course's department field equals
  the department's name; when no course's department field equals it, the delete
  succeeds and removes exactly that department: the entry under \<open>dept_id\<close> is gone
  and every other entry, and every course, is as before.
\<close>

theorem department_delete_guard:
  "map_of (fst (get_departments now st)) dept_id = Some d \<Longrightarrow>
     (case delete_department now dept_id st of
        (r, st') \<Rightarrow>
          (some_course_in (d_name d) st \<longrightarrow>
             r = Tuple2 False ''Cannot delete department that is in use by courses'' \<and>
             fst (get_departments now' st') = fst (get_departments now st) \<and>
             no_save H now st st') \<and>
          (\<not> some_course_in (d_name d) st \<longrightarrow>
             r = Tuple2 True ''Department deleted successfully'' \<and>
             fst (get_departments now' st') = AList.delete dept_id (fst (get_departments now st)) \<and>
             map_of (fst (get_departments now' st'))
               = (map_of (fst (get_departments now st)))(dept_id := None) \<and>
             fst (get_courses st') = fst (get_courses st)))"
proof (cases "some_course_in (d_name d) st")
  case True
  assume stored: "map_of (fst (get_departments now st)) dept_id = Some d"
  have "no_save H now st (snd (get_courses (snd (get_departments now st))))"
    by (rule no_save_trans [OF get_departments_no_save get_courses_no_save])
  with True stored show ?thesis
    by (simp add: delete_department_blocked departments_after_courses
          departments_after_departments)
next
  case False
  assume stored: "map_of (fst (get_departments now st)) dept_id = Some d"
  with False show ?thesis
    by (simp add: delete_department_free departments_saved courses_saved_departments
          courses_after_courses courses_after_departments delete_conv')
qed

lemma campus_departments:
  "fst (get_departments clock1 campus) = default_departments clock0"
  by (simp add: get_departments_fst load_data_fst campus_def)

theorem department_delete_guard_witness:
  "map_of (fst (get_departments clock1 campus)) ''CS''
     = Some \<lparr>d_name = ''Computer Science'', d_hod_email = ''teacher@college.edu'',
             d_description = ''Department of Computer Science'',
             d_created_at = isoformat clock0\<rparr> \<and>
   some_course_in ''Computer Science'' campus \<and>
   fst (delete_department clock1 ''CS'' campus)
     = Tuple2 False ''Cannot delete department that is in use by courses'' \<and>
   fst (get_departments clock1 (snd (delete_department clock1 ''CS'' campus)))
     = fst (get_departments clock1 campus) \<and>
   map_of (fst (get_departments clock1 campus)) ''PHY''
     = Some \<lparr>d_name = ''Physics'', d_hod_email = ''teacher@college.edu'',
             d_description = ''Department of Physics'',
             d_created_at = isoformat clock0\<rparr> \<and>
   \<not> some_course_in ''Physics'' campus \<and>
   fst (delete_department clock1 ''PHY'' campus)
     = Tuple2 True ''Department deleted successfully'' \<and>
   map fst (fst (get_departments clock1 (snd (delete_department clock1 ''PHY'' campus))))
     = [''CS'', ''MATH'']"
proof -
  have cs: "map_of (fst (get_departments clock1 campus)) ''CS''
     = Some \<lparr>d_name = ''Computer Science'', d_hod_email = ''teacher@college.edu'',
             d_description = ''Department of Computer Science'',
             d_created_at = isoformat clock0\<rparr>"
    by (simp add: campus_departments default_departments_def)
  have phy: "map_of (fst (get_departments clock1 campus)) ''PHY''
     = Some \<lparr>d_name = ''Physics'', d_hod_email = ''teacher@college.edu'',
             d_description = ''Department of Physics'',
             d_created_at = isoformat clock0\<rparr>"
    by (simp add: campus_departments default_departments_def)
  have used: "some_course_in ''Computer Science'' campus"
    by (simp add: some_course_in_def get_courses_fst load_data_fst campus_def)
  have free: "\<not> some_course_in ''Physics'' campus"
    by (simp add: some_course_in_def get_courses_fst load_data_fst campus_def)
  from department_delete_guard [OF cs, where now' = clock1 and H = rev] used
  have blocked: "fst (delete_department clock1 ''CS'' campus)
       = Tuple2 False ''Cannot delete department that is in use by courses'' \<and>
     fst (get_departments clock1 (snd (delete_department clock1 ''CS'' campus)))
       = fst (get_departments clock1 campus)"
    by (simp add: case_prod_beta)
  from department_delete_guard [OF phy, where now' = clock1 and H = rev] free
  have deleted: "fst (delete_department clock1 ''PHY'' campus)
       = Tuple2 True ''Department deleted successfully'' \<and>
     map fst (fst (get_departments clock1 (snd (delete_department clock1 ''PHY'' campus))))
       = [''CS'', ''MATH'']"
    by (simp add: case_prod_beta campus_departments default_departments_def)
  from cs phy used free blocked deleted show ?thesis by blast
qed

lemma exams_saved [simp]: "fst (get_exams (st\<lparr>exams_file := Some doc\<rparr>)) = doc"
  by (simp add: get_exams_fst load_data_fst)

lemma results_saved [simp]:
  "fst (get_exam_results (st\<lparr>exam_results_file := Some doc\<rparr>)) = doc"
  by (simp add: get_exam_results_fst load_data_fst)

lemma results_beside_exams [simp]:
  "fst (get_exam_results (st\<lparr>exams_file := file\<rparr>)) = fst (get_exam_results st)"
  by (simp add: get_exam_results_fst)

lemma exams_beside_results [simp]:
  "fst (get_exams (st\<lparr>exam_results_file := file\<rparr>)) = fst (get_exams st)"
  by (simp add: get_exams_fst)

lemma delete_absent: "\<not> has_key d k \<Longrightarrow> AList.delete k d = d"
  by (simp add: has_key_def map_of_eq_None_iff)

lemma delete_exam_results_effect:
  "fst (get_exam_results (snd (delete_exam_results exam_id st)))
     = AList.delete exam_id (fst (get_exam_results st))"
  "fst (get_exams (snd (delete_exam_results exam_id st))) = fst (get_exams st)"
  by (simp_all add: delete_exam_results_def case_prod_beta save_data_def get_exam_results_snd
        delete_absent)

lemma delete_exam_known:
  assumes "has_key (fst (get_exams st)) exam_id"
  shows "fst (delete_exam exam_id st) = PyBool True"
    and "fst (get_exams (snd (delete_exam exam_id st)))
           = AList.delete exam_id (fst (get_exams st))"
    and "fst (get_exam_results (snd (delete_exam exam_id st)))
           = AList.delete exam_id (fst (get_exam_results st))"
  using assms
  by (simp_all add: delete_exam_def case_prod_beta Let_def save_data_def
        delete_exam_results_effect get_exams_snd)

lemma delete_exam_unknown:
  assumes "\<not> has_key (fst (get_exams st)) exam_id"
  shows "delete_exam exam_id st = (PyBool False, snd (get_exams st))"
  using assms by (simp add: delete_exam_def case_prod_beta)

text \<open>
  C9: for an exam id that exists, \<^verbatim>\<open>delete_exam\<close> returns \<^verbatim>\<open>True\<close>, removes the exam from
  the exams document and removes everything stored under that id from the exam-results
  document, the results of every other exam being as before; for an exam id that does
  not exist it returns \<^verbatim>\<open>False\<close>, saves nothing and leaves both documents as they were.
\<close>

theorem delete_exam_cascades:
  "(case delete_exam exam_id st of
      (r, st') \<Rightarrow>
        (has_key (fst (get_exams st)) exam_id \<longrightarrow>
           r = PyBool True \<and>
           fst (get_exams st') = AList.delete exam_id (fst (get_exams st)) \<and>
           \<not> has_key (fst (get_exams st')) exam_id \<and>
           fst (get_exam_results st') = AList.delete exam_id (fst (get_exam_results st)) \<and>
           map_of (fst (get_exam_results st')) exam_id = None \<and>
           (\<forall>other. other \<noteq> exam_id \<longrightarrow>
              map_of (fst (get_exam_results st')) other
                = map_of (fst (get_exam_results st)) other)) \<and>
        (\<not> has_key (fst (get_exams st)) exam_id \<longrightarrow>
           r = PyBool False \<and>
           fst (get_exams st') = fst (get_exams st) \<and>
           fst (get_exam_results st') = fst (get_exam_results st) \<and>
           no_save H now st st'))"
proof (cases "has_key (fst (get_exams st)) exam_id")
  case True
  then show ?thesis
    by (simp add: case_prod_beta delete_exam_known has_key_def delete_conv')
next
  case False
  then show ?thesis
    using get_exams_no_save [of H now st]
    by (simp add: delete_exam_unknown get_exams_snd)
qed

theorem delete_exam_cascades_witness:
  "has_key (fst (get_exams campus)) ''exam_1_20240110090000'' \<and>
   fst (delete_exam ''exam_1_20240110090000'' campus) = PyBool True \<and>
   map fst (fst (get_exams (snd (delete_exam ''exam_1_20240110090000'' campus))))
     = [''exam_2_20240110090000''] \<and>
   fst (get_exam_results (snd (delete_exam ''exam_1_20240110090000'' campus)))
     = [(''exam_2_20240110090000'',
         [(''student@college.edu'',
           [(''subject_1'', \<lparr>r_marks = 80, r_remarks = None,
                              r_updated_at = spaced clock0\<rparr>)])])] \<and>
   \<not> has_key (fst (get_exams campus)) ''exam_3'' \<and>
   fst (delete_exam ''exam_3'' campus) = PyBool False \<and>
   fst (get_exams (snd (delete_exam ''exam_3'' campus))) = fst (get_exams campus) \<and>
   fst (get_exam_results (snd (delete_exam ''exam_3'' campus)))
     = fst (get_exam_results campus)"
proof -
  have known: "has_key (fst (get_exams campus)) ''exam_1_20240110090000''"
    by (simp add: get_exams_fst load_data_fst campus_def has_key_def)
  have unknown: "\<not> has_key (fst (get_exams campus)) ''exam_3''"
    by (simp add: get_exams_fst load_data_fst campus_def has_key_def)
  from delete_exam_cascades [where exam_id = "''exam_1_20240110090000''" and st = campus
      and H = rev and now = clock0] known
  have first: "fst (delete_exam ''exam_1_20240110090000'' campus) = PyBool True \<and>
     map fst (fst (get_exams (snd (delete_exam ''exam_1_20240110090000'' campus))))
       = [''exam_2_20240110090000''] \<and>
     fst (get_exam_results (snd (delete_exam ''exam_1_20240110090000'' campus)))
       = [(''exam_2_20240110090000'',
           [(''student@college.edu'',
             [(''subject_1'', \<lparr>r_marks = 80, r_remarks = None,
                                r_updated_at = spaced clock0\<rparr>)])])]"
    by (simp add: case_prod_beta get_exams_fst get_exam_results_fst load_data_fst campus_def)
  from delete_exam_cascades [where exam_id = "''exam_3''" and st = campus and H = rev
      and now = clock0] unknown
  have second: "fst (delete_exam ''exam_3'' campus) = PyBool False \<and>
     fst (get_exams (snd (delete_exam ''exam_3'' campus))) = fst (get_exams campus) \<and>
     fst (get_exam_results (snd (delete_exam ''exam_3'' campus)))
       = fst (get_exam_results campus)"
    by (simp add: case_prod_beta)
  from known unknown first second show ?thesis by blast
qed

lemma get_or_Nil: "get_or [] k dflt = dflt"
  by (simp add: get_or_def)

lemma get_or_Cons: "get_or ((k, v) # d) k' dflt = (if k' = k then v else get_or d k' dflt)"
  by (simp add: get_or_def)

lemma mark_attendance_marked:
  "mark_attendance now c d s status st
     = (Tuple2 True ''Attendance marked successfully'',
        st\<lparr>attendance_file :=
             Some (marked c d s \<lparr>m_status = status, m_marked_at = isoformat now\<rparr>
                     (fst (get_attendance st)))\<rparr>)"
proof (cases "has_key (fst (get_attendance st)) c")
  case False
  then show ?thesis
    by (simp add: mark_attendance_def marked_def case_prod_beta Let_def save_data_def
          get_or_update get_or_absent get_attendance_snd has_key_def get_or_Nil get_or_Cons)
next
  case True
  then show ?thesis
    by (cases "has_key (get_or (fst (get_attendance st)) c []) d")
       (simp_all add: mark_attendance_def marked_def case_prod_beta Let_def save_data_def
          get_or_update get_or_absent get_attendance_snd)
qed

lemma attendance_saved [simp]:
  "fst (get_attendance (st\<lparr>attendance_file := Some doc\<rparr>)) = doc"
  by (simp add: get_attendance_fst load_data_fst)

lemma lookup_marked:
  "map_of (get_or (get_or (marked c d s m doc) c' []) d' []) s'
     = (if c' = c \<and> d' = d \<and> s' = s then Some m
        else map_of (get_or (get_or doc c' []) d' []) s')"
  by (simp add: marked_def get_or_update update_conv')

lemma unique_keys_update: "unique_keys d \<Longrightarrow> unique_keys (AList.update k v d)"
  by (simp add: unique_keys_def distinct_update)

lemma list_all_update:
  "list_all P d \<Longrightarrow> P (k, v) \<Longrightarrow> list_all P (AList.update k v d)"
  by (induction d) auto

lemma list_all_get_or:
  "list_all P d \<Longrightarrow> P (k, dflt) \<Longrightarrow> P (k, get_or d k dflt)"
  by (auto simp: get_or_def list_all_iff split: option.splits dest: map_of_SomeD)

lemma wf_marked:
  assumes "wf_attendance doc"
  shows "wf_attendance (marked c d s m doc)"
proof -
  let ?dates = "get_or doc c []"
  let ?students = "get_or ?dates d []"
  from assms have dates: "unique_keys ?dates \<and>
      list_all (\<lambda>(date, students). unique_keys students) ?dates"
    using list_all_get_or [of "\<lambda>(course_id, dates). unique_keys dates \<and>
        list_all (\<lambda>(date, students). unique_keys students) dates" doc c "[]"]
    by (simp add: wf_attendance_def unique_keys_def)
  then have students: "unique_keys ?students"
    using list_all_get_or [of "\<lambda>(date, students). unique_keys students" ?dates d "[]"]
    by (simp add: unique_keys_def)
  from dates students
  have "unique_keys (AList.update d (AList.update s m ?students) ?dates) \<and>
      list_all (\<lambda>(date, students). unique_keys students)
        (AList.update d (AList.update s m ?students) ?dates)"
    by (simp add: unique_keys_update list_all_update)
  with assms show ?thesis
    by (simp add: wf_attendance_def marked_def unique_keys_update list_all_update)
qed

lemma wf_students:
  assumes "wf_attendance doc"
  shows "unique_keys (get_or (get_or doc c []) d [])"
proof -
  from assms have "unique_keys (get_or doc c []) \<and>
      list_all (\<lambda>(date, students). unique_keys students) (get_or doc c [])"
    using list_all_get_or [of "\<lambda>(course_id, dates). unique_keys dates \<and>
        list_all (\<lambda>(date, students). unique_keys students) dates" doc c "[]"]
    by (simp add: wf_attendance_def unique_keys_def)
  then show ?thesis
    using list_all_get_or [of "\<lambda>(date, students). unique_keys students"
        "get_or doc c []" d "[]"]
    by (simp add: unique_keys_def)
qed

lemma filter_key_absent: "k \<notin> fst ` set d \<Longrightarrow> filter (\<lambda>(k', v). k' = k) d = []"
  by (induction d) auto

lemma filter_key_update:
  "unique_keys d \<Longrightarrow> filter (\<lambda>(k', v). k' = k) (AList.update k v d) = [(k, v)]"
  by (induction d) (auto simp: unique_keys_def filter_key_absent)

lemma records_marked:
  assumes "wf_attendance doc"
  shows "filter (\<lambda>(k, v). k = s) (get_or (get_or (marked c d s m doc) c []) d []) = [(s, m)]"
  using wf_students [OF assms, of c d]
  by (simp add: marked_def get_or_update filter_key_update)

text \<open>
  C6: \<^verbatim>\<open>mark_attendance\<close> succeeds on every triple and every store. Marked twice for
  the same triple, the store holds for the triple the record of the second call, and
  for every other triple what it held before. A well-formed attendance document (no
  key twice in a dictionary) stays well-formed and holds exactly one record under the
  triple.
\<close>

theorem remarking_overwrites:
  "(case mark_attendance now1 course_id date student_email status1 st of
      (r1, st1) \<Rightarrow>
        (case mark_attendance now2 course_id date student_email status2 st1 of
           (r2, st2) \<Rightarrow>
             r1 = Tuple2 True ''Attendance marked successfully'' \<and>
             r2 = Tuple2 True ''Attendance marked successfully'' \<and>
             attendance_of course_id date student_email st2
               = Some \<lparr>m_status = status2, m_marked_at = isoformat now2\<rparr> \<and>
             (\<forall>c d s. (c, d, s) \<noteq> (course_id, date, student_email) \<longrightarrow>
                attendance_of c d s st2 = attendance_of c d s st) \<and>
             (wf_attendance (fst (get_attendance st)) \<longrightarrow>
                wf_attendance (fst (get_attendance st2)) \<and>
                records_for course_id date student_email st2
                  = [(student_email, \<lparr>m_status = status2, m_marked_at = isoformat now2\<rparr>)])))"
  by (simp add: mark_attendance_marked attendance_of_def records_for_def lookup_marked
        wf_marked records_marked)

theorem remarking_overwrites_witness:
  "wf_attendance (fst (get_attendance campus)) \<and>
   attendance_of ''CS101'' ''2024-01-10'' ''student@college.edu'' campus
     = Some \<lparr>m_status = ''Present'', m_marked_at = isoformat clock0\<rparr> \<and>
   attendance_of ''CS101'' ''2024-01-10'' ''student@college.edu''
     (snd (mark_attendance clock1 ''CS101'' ''2024-01-10'' ''student@college.edu'' ''Late''
        (snd (mark_attendance clock0 ''CS101'' ''2024-01-10'' ''student@college.edu''
                ''Absent'' campus))))
     = Some \<lparr>m_status = ''Late'', m_marked_at = isoformat clock1\<rparr> \<and>
   records_for ''CS101'' ''2024-01-10'' ''student@college.edu''
     (snd (mark_attendance clock1 ''CS101'' ''2024-01-10'' ''student@college.edu'' ''Late''
        (snd (mark_attendance clock0 ''CS101'' ''2024-01-10'' ''student@college.edu''
                ''Absent'' campus))))
     = [(''student@college.edu'', \<lparr>m_status = ''Late'', m_marked_at = isoformat clock1\<rparr>)]"
proof -
  have wf: "wf_attendance (fst (get_attendance campus))"
    by (simp add: get_attendance_fst load_data_fst campus_def wf_attendance_def
          unique_keys_def)
  have before: "attendance_of ''CS101'' ''2024-01-10'' ''student@college.edu'' campus
     = Some \<lparr>m_status = ''Present'', m_marked_at = isoformat clock0\<rparr>"
    by (simp add: attendance_of_def get_attendance_fst load_data_fst campus_def get_or_def)
  from wf before
    remarking_overwrites [where ?now1.0 = clock0 and ?now2.0 = clock1
      and course_id = "''CS101''" and date = "''2024-01-10''"
      and student_email = "''student@college.edu''" and ?status1.0 = "''Absent''"
      and ?status2.0 = "''Late''" and st = campus]
  show ?thesis by (simp add: case_prod_beta)
qed

lemma certificates_saved [simp]:
  "fst (get_certificates (st\<lparr>certificates_file := Some doc\<rparr>)) = doc"
  by (simp add: get_certificates_fst load_data_fst)

lemma submit_certificate_stored:
  "submit_certificate now e title org issued fp st
     = (Tuple2 True ''Certificate submitted successfully'',
        st\<lparr>certificates_file :=
             Some (AList.update e
                     (get_or (fst (get_certificates st)) e []
                      @ [\<lparr>ct_certificate_id =
                            e @ ''_''
                            @ str_nat (length (get_or (fst (get_certificates st)) e []) + 1),
                          ct_title = title, ct_issuing_organization = org,
                          ct_issue_date = issued, ct_file_path = fp,
                          ct_submitted_at = isoformat now, ct_verified = False,
                          ct_verified_at = None\<rparr>])
                     (fst (get_certificates st)))\<rparr>)"
  by (cases "has_key (fst (get_certificates st)) e")
     (simp_all add: submit_certificate_def case_prod_beta Let_def save_data_def
        get_or_update get_or_absent get_certificates_snd)

text \<open>A store document with at least one student cannot be read as the query reads it.\<close>

lemma filter_certificates_of_store:
  "doc \<noteq> [] \<Longrightarrow>
     (case certificates_json doc of
        JObj items \<Rightarrow> filter_certificates e items found = Inl AttributeError
      | _ \<Rightarrow> False)"
  by (cases doc) (auto simp: certificates_json_def)

lemma query_of_store:
  assumes "cwd_is_data_dir st" and "fst (get_certificates st) \<noteq> []"
  shows "fst (get_student_certificates e st) = Inl AttributeError"
  using assms filter_certificates_of_store [of "fst (get_certificates st)" e "[]"]
  by (auto simp: get_student_certificates_def load_relative_certificates_def case_prod_beta
        split: json.splits)

lemma query_elsewhere:
  assumes "\<not> cwd_is_data_dir st"
  shows "fst (get_student_certificates e (st\<lparr>certificates_file := file\<rparr>))
           = fst (get_student_certificates e st)"
  using assms
  by (simp add: get_student_certificates_def load_relative_certificates_def case_prod_beta
        split: json.splits)

text \<open>
  C8: \<^verbatim>\<open>submit_certificate\<close> always succeeds and stores the certificate under the
  student's email in the store's certificates document. A following
  \<^verbatim>\<open>get_student_certificates\<close>, for any email, does not return it: where the relative
  path names another file than the store's, the query returns what it returned before
  the submit; where it names the store's file, the query raises \<^verbatim>\<open>AttributeError\<close>, as
  it does on every document of the shape that \<^verbatim>\<open>submit_certificate\<close> writes.
\<close>

theorem submitted_certificate_not_returned:
  "(case submit_certificate now student_email title issuing_organization issue_date
           file_path st of
      (r, st1) \<Rightarrow>
        r = Tuple2 True ''Certificate submitted successfully'' \<and>
        (\<exists>c \<in> set (get_or (fst (get_certificates st1)) student_email []).
           ct_title c = title \<and> ct_issuing_organization c = issuing_organization) \<and>
        (\<not> cwd_is_data_dir st \<longrightarrow>
           fst (get_student_certificates email st1) = fst (get_student_certificates email st)) \<and>
        (cwd_is_data_dir st \<longrightarrow>
           fst (get_student_certificates email st1) = Inl AttributeError) \<and>
        (case certificates_json (fst (get_certificates st1)) of
           JObj items \<Rightarrow> filter_certificates email items [] = Inl AttributeError
         | _ \<Rightarrow> False))"
proof -
  let ?doc = "AList.update student_email
                (get_or (fst (get_certificates st)) student_email []
                 @ [\<lparr>ct_certificate_id =
                       student_email @ ''_''
                       @ str_nat (length (get_or (fst (get_certificates st)) student_email [])
                                  + 1),
                     ct_title = title, ct_issuing_organization = issuing_organization,
                     ct_issue_date = issue_date, ct_file_path = file_path,
                     ct_submitted_at = isoformat now, ct_verified = False,
                     ct_verified_at = None\<rparr>])
                (fst (get_certificates st))"
  have nonempty: "?doc \<noteq> []" by simp
  have raises: "cwd_is_data_dir st \<longrightarrow>
      fst (get_student_certificates email (st\<lparr>certificates_file := Some ?doc\<rparr>))
        = Inl AttributeError"
    using nonempty by (simp add: query_of_store)
  show ?thesis
    using raises filter_certificates_of_store [OF nonempty, of email "[]"]
    by (simp add: submit_certificate_stored get_or_update query_elsewhere)
qed

theorem submitted_certificate_not_returned_witness:
  "\<not> cwd_is_data_dir fresh \<and>
   fst (get_student_certificates ''student@college.edu'' fresh) = Inr [] \<and>
   fst (submit_certificate clock0 ''student@college.edu'' ''Python'' ''Coursera''
          ''2024-01-05'' None fresh) = Tuple2 True ''Certificate submitted successfully'' \<and>
   fst (get_student_certificates ''student@college.edu''
          (snd (submit_certificate clock0 ''student@college.edu'' ''Python'' ''Coursera''
                  ''2024-01-05'' None fresh))) = Inr [] \<and>
   cwd_is_data_dir (fresh\<lparr>cwd_is_data_dir := True\<rparr>) \<and>
   fst (get_student_certificates ''student@college.edu''
          (snd (submit_certificate clock0 ''student@college.edu'' ''Python'' ''Coursera''
                  ''2024-01-05'' None (fresh\<lparr>cwd_is_data_dir := True\<rparr>))))
     = Inl AttributeError"
proof -
  have elsewhere: "\<not> cwd_is_data_dir fresh"
    by (simp add: fresh_def)
  have before: "fst (get_student_certificates ''student@college.edu'' fresh) = Inr []"
    by (simp add: get_student_certificates_def load_relative_certificates_def load_data_def
          fresh_def)
  from elsewhere before
    submitted_certificate_not_returned [where now = clock0
      and student_email = "''student@college.edu''" and title = "''Python''"
      and issuing_organization = "''Coursera''" and issue_date = "''2024-01-05''"
      and file_path = None and st = fresh and email = "''student@college.edu''"]
  have first: "fst (submit_certificate clock0 ''student@college.edu'' ''Python'' ''Coursera''
          ''2024-01-05'' None fresh) = Tuple2 True ''Certificate submitted successfully'' \<and>
     fst (get_student_certificates ''student@college.edu''
          (snd (submit_certificate clock0 ''student@college.edu'' ''Python'' ''Coursera''
                  ''2024-01-05'' None fresh))) = Inr []"
    by (simp add: case_prod_beta)
  from submitted_certificate_not_returned [where now = clock0
      and student_email = "''student@college.edu''" and title = "''Python''"
      and issuing_organization = "''Coursera''" and issue_date = "''2024-01-05''"
      and file_path = None and st = "fresh\<lparr>cwd_is_data_dir := True\<rparr>"
      and email = "''student@college.edu''"]
  have second: "fst (get_student_certificates ''student@college.edu''
          (snd (submit_certificate clock0 ''student@college.edu'' ''Python'' ''Coursera''
                  ''2024-01-05'' None (fresh\<lparr>cwd_is_data_dir := True\<rparr>))))
     = Inl AttributeError"
    by (simp add: case_prod_beta)
  from elsewhere before first second show ?thesis by simp
qed

end
